theory Spec2Isabelle
  imports Complex_Main
begin

section \<open>Data model\<close>

text \<open>
  The Python code mutates \<^verbatim>\<open>Bar\<close> objects that are shared between the two nodes
  they join.  A bar is therefore a reference (an address) into a heap of bar objects,
  and a node holds the list of references of its incident bars, in the order of
  \<^verbatim>\<open>node.bars\<close>.  Python floats are idealised as real numbers.
\<close>

type_synonym vec = "real \<times> real"

type_synonym bar_ref = nat

record bar =
  is_computed :: bool
  axial_load :: real

record node =
  idx :: nat
  bars :: "bar_ref list"
  location :: vec
  constraint :: string
  xforce_external :: real
  yforce_external :: real
  xforce_reaction :: real
  yforce_reaction :: real

text \<open>
  The module \<^verbatim>\<open>Geometry_Operations\<close> is imported by the solver but is not part of
  the sources at hand, so its three functions are parameters of the model.
\<close>

record geometry =
  BarNodeToVector :: "node \<Rightarrow> bar_ref \<Rightarrow> vec"
  CosineVectors :: "vec \<Rightarrow> vec \<Rightarrow> real"
  SineVectors :: "vec \<Rightarrow> vec \<Rightarrow> real"

text \<open>
  Every write to a bar is recorded in an audit trail next to the heap: which bar was
  written, whether its \<^verbatim>\<open>is_computed\<close> flag was already set at that moment, and
  for a load the old and the new value.  A call of a solver by the driver is recorded
  with its target bar.  The trail is only ever appended to; it never influences the
  computation.
\<close>

datatype event =
  SolverCall bar_ref bool
  | LoadWrite bar_ref bool real real
  | FlagWrite bar_ref bool bool

record truss =
  heap :: "bar_ref \<Rightarrow> bar"
  trail :: "event list"

text \<open>
  The ways the process ends early: the two \<^verbatim>\<open>sys.exit\<close> calls of the solver and
  the driver (collinear bars at a node, named by its index; no viable node), the
  exceptions Python raises on a short list and on a division by zero, the
  \<^verbatim>\<open>sys.exit\<close> of \<^verbatim>\<open>ComputeReactions\<close>, and the four of
  \<^verbatim>\<open>StaticallyDeterminate\<close>.  The driver itself returns normally, returns after
  printing "Too many iterations", or exits.
\<close>

datatype failure =
  GeometryError nat
  | StuckError
  | IndexError
  | ReactionError
  | ZeroDivisionError
  | MomentReactionError
  | InvalidConstraintError
  | UnstableError
  | IndeterminateError

datatype outcome =
  Converged
  | TooManyIterations
  | SysExit failure

section \<open>Primitive reads and writes\<close>

text \<open>The assignment \<^verbatim>\<open>bar.axial_load = v\<close>.\<close>

definition write_axial_load :: "bar_ref \<Rightarrow> real \<Rightarrow> truss \<Rightarrow> truss" where
  "write_axial_load b v t =
     t\<lparr>heap := (heap t)(b := (heap t b)\<lparr>axial_load := v\<rparr>),
       trail := trail t @ [LoadWrite b (is_computed (heap t b)) (axial_load (heap t b)) v]\<rparr>"

text \<open>The assignment \<^verbatim>\<open>bar.is_computed = v\<close>.\<close>

definition write_is_computed :: "bar_ref \<Rightarrow> bool \<Rightarrow> truss \<Rightarrow> truss" where
  "write_is_computed b v t =
     t\<lparr>heap := (heap t)(b := (heap t b)\<lparr>is_computed := v\<rparr>),
       trail := trail t @ [FlagWrite b (is_computed (heap t b)) v]\<rparr>"

text \<open>
  Modelled from the spec: the class \<^verbatim>\<open>Bar\<close> and its method
  \<^verbatim>\<open>SetAxialLoad(value)\<close> are missing from the sources; the method stores the
  value in the bar's axial load.
\<close>

definition SetAxialLoad :: "bar_ref \<Rightarrow> real \<Rightarrow> truss \<Rightarrow> truss" where
  "SetAxialLoad b v t = write_axial_load b v t"

text \<open>
  Modelled from the spec: the class \<^verbatim>\<open>Node\<close> and its methods
  \<^verbatim>\<open>GetNetXForce()\<close>, \<^verbatim>\<open>GetNetYForce()\<close>, \<^verbatim>\<open>AddReactionXForce(f)\<close> and
  \<^verbatim>\<open>AddReactionYForce(f)\<close> are missing from the sources; the net force is the
  sum of the external and the reaction force, and a reaction is added to the
  reaction force the node already has.
\<close>

definition GetNetXForce :: "node \<Rightarrow> real" where
  "GetNetXForce n = xforce_external n + xforce_reaction n"

definition GetNetYForce :: "node \<Rightarrow> real" where
  "GetNetYForce n = yforce_external n + yforce_reaction n"

definition AddReactionXForce :: "real \<Rightarrow> node \<Rightarrow> node" where
  "AddReactionXForce f n = n\<lparr>xforce_reaction := xforce_reaction n + f\<rparr>"

definition AddReactionYForce :: "real \<Rightarrow> node \<Rightarrow> node" where
  "AddReactionYForce f n = n\<lparr>yforce_reaction := yforce_reaction n + f\<rparr>"

text \<open>The driver notes which bar it is about to hand to a solver.\<close>

definition note_solver_call :: "bar_ref \<Rightarrow> truss \<Rightarrow> truss" where
  "note_solver_call b t = t\<lparr>trail := trail t @ [SolverCall b (is_computed (heap t b))]\<rparr>"

section \<open>Viability classifier\<close>

text \<open>\<^verbatim>\<open>UnknownBars\<close>: the loop appends every bar whose flag is False.\<close>

definition UnknownBars :: "node \<Rightarrow> truss \<Rightarrow> bar_ref list" where
  "UnknownBars n t =
     foldl (\<lambda>list_of_unknown_bars my_bar.
              if is_computed (heap t my_bar) = False
              then list_of_unknown_bars @ [my_bar]
              else list_of_unknown_bars)
       [] (bars n)"

definition NodeIsViable :: "node \<Rightarrow> truss \<Rightarrow> bool" where
  "NodeIsViable n t =
     (let unknowns = UnknownBars n t
      in if length unknowns \<ge> 1 \<and> length unknowns \<le> 2 then True else False)"

section \<open>Local equilibrium solver\<close>

text \<open>
  \<^verbatim>\<open>SumOfForcesInLocalX\<close>: the sum starts at 0, takes the two projections of the
  net force, then one term for each other incident bar that is computed, in the order
  of \<^verbatim>\<open>node.bars\<close>.  The function writes the load and the flag of its target and
  returns the load.
\<close>

definition SumOfForcesInLocalX :: "geometry \<Rightarrow> node \<Rightarrow> bar_ref \<Rightarrow> truss \<Rightarrow> real \<times> truss" where
  "SumOfForcesInLocalX g n local_x_bar t =
     (let local_x_vec = BarNodeToVector g n local_x_bar;
          f_net_x = GetNetXForce n;
          f_net_y = GetNetYForce n;
          s1 = 0 + f_net_x * CosineVectors g local_x_vec (1, 0);
          s2 = s1 + f_net_y * CosineVectors g local_x_vec (0, 1);
          sum_forces =
            foldl (\<lambda>acc b.
                     if b \<noteq> local_x_bar then
                       (if is_computed (heap t b)
                        then acc + axial_load (heap t b)
                               * CosineVectors g local_x_vec (BarNodeToVector g n b)
                        else acc)
                     else acc)
              s2 (bars n);
          t1 = write_axial_load local_x_bar (- sum_forces) t;
          t2 = write_is_computed local_x_bar True t1
      in (- sum_forces, t2))"

text \<open>
  \<^verbatim>\<open>SumOfForcesInLocalY\<close>: indexing a list shorter than two raises
  \<^verbatim>\<open>IndexError\<close>; \<^verbatim>\<open>sys.exit\<close> on a sine below \<open>1e-9\<close> in absolute value
  leaves before the division and before any write.
\<close>

definition SumOfForcesInLocalY ::
    "geometry \<Rightarrow> node \<Rightarrow> bar_ref list \<Rightarrow> truss \<Rightarrow> (failure + real) \<times> truss" where
  "SumOfForcesInLocalY g n unknown_bars t =
     (case unknown_bars of
        bar_0 # bar_target # _ \<Rightarrow>
          (let local_x_vec = BarNodeToVector g n bar_0;
               f_net_x = GetNetXForce n;
               f_net_y = GetNetYForce n;
               s1 = 0 + f_net_x * SineVectors g local_x_vec (1, 0);
               s2 = s1 + f_net_y * SineVectors g local_x_vec (0, 1);
               sum_known_forces =
                 foldl (\<lambda>acc b.
                          if is_computed (heap t b)
                          then acc + axial_load (heap t b)
                                 * SineVectors g local_x_vec (BarNodeToVector g n b)
                          else acc)
                   s2 (bars n);
               target_vec = BarNodeToVector g n bar_target;
               sin_theta = SineVectors g local_x_vec target_vec
           in if \<bar>sin_theta\<bar> < 1 / 10 ^ 9 then (Inl (GeometryError (idx n)), t)
              else
                (let t1 = write_axial_load bar_target (- sum_known_forces / sin_theta) t;
                     t2 = write_is_computed bar_target True t1
                 in (Inr (axial_load (heap t2 bar_target)), t2)))
      | _ \<Rightarrow> (Inl IndexError, t))"

section \<open>Joint-resolution driver\<close>

text \<open>\<^verbatim>\<open>DoIhaveAnUnknownMember\<close>: the first node with an unknown bar answers True.\<close>

fun DoIhaveAnUnknownMember :: "node list \<Rightarrow> truss \<Rightarrow> bool" where
  "DoIhaveAnUnknownMember [] t = False"
| "DoIhaveAnUnknownMember (n # ns) t =
     (let unknown_bars = UnknownBars n t
      in if length unknown_bars > 0 then True else DoIhaveAnUnknownMember ns t)"

text \<open>
  The body of the \<^verbatim>\<open>for node in nodes\<close> loop for one node.  It returns the
  failure that ended the process, if any, the value of \<^verbatim>\<open>progress_made\<close> and the
  truss.
\<close>

definition resolve_node ::
    "geometry \<Rightarrow> node \<Rightarrow> bool \<Rightarrow> truss \<Rightarrow> failure option \<times> bool \<times> truss" where
  "resolve_node g n progress_made t =
     (if NodeIsViable n t then
        (let unknowns = UnknownBars n t in
         if length unknowns = 2 then
           (case SumOfForcesInLocalY g n unknowns (note_solver_call (unknowns ! 1) t) of
              (Inl e, t1) \<Rightarrow> (Some e, progress_made, t1)
            | (Inr force_2, t1) \<Rightarrow>
                (let t2 = SetAxialLoad (unknowns ! 1) force_2 t1;
                     t3 = write_is_computed (unknowns ! 1) True t2;
                     (force_1, t4) =
                        SumOfForcesInLocalX g n (unknowns ! 0) (note_solver_call (unknowns ! 0) t3);
                     t5 = SetAxialLoad (unknowns ! 0) force_1 t4;
                     t6 = write_is_computed (unknowns ! 0) True t5
                 in (None, True, t6)))
         else if length unknowns = 1 then
           (let (force, t1) =
                   SumOfForcesInLocalX g n (unknowns ! 0) (note_solver_call (unknowns ! 0) t);
                t2 = SetAxialLoad (unknowns ! 0) force t1;
                t3 = write_is_computed (unknowns ! 0) True t2
            in (None, True, t3))
         else (None, progress_made, t))
      else (None, progress_made, t))"

text \<open>The \<^verbatim>\<open>for\<close> loop: nodes in list order, each seeing the writes of the ones before.\<close>

fun scan_nodes ::
    "geometry \<Rightarrow> node list \<Rightarrow> bool \<Rightarrow> truss \<Rightarrow> failure option \<times> bool \<times> truss" where
  "scan_nodes g [] progress_made t = (None, progress_made, t)"
| "scan_nodes g (n # ns) progress_made t =
     (case resolve_node g n progress_made t of
        (Some e, p, t') \<Rightarrow> (Some e, p, t')
      | (None, p, t') \<Rightarrow> scan_nodes g ns p t')"

text \<open>
  The \<^verbatim>\<open>while\<close> loop.  The result carries the value of \<^verbatim>\<open>counter\<close> at the
  moment the driver stops, that is, the number of passes that ran to their end.
\<close>

function iterate_while ::
    "geometry \<Rightarrow> node list \<Rightarrow> bar_ref list \<Rightarrow> nat \<Rightarrow> truss \<Rightarrow> outcome \<times> nat \<times> truss" where
  "iterate_while g nodes bs counter t =
     (if DoIhaveAnUnknownMember nodes t = True then
        (case scan_nodes g nodes False t of
           (Some e, p, t') \<Rightarrow> (SysExit e, counter, t')
         | (None, progress_made, t') \<Rightarrow>
             if \<not> progress_made then (SysExit StuckError, counter, t')
             else if counter + 1 > length bs + 5 then (TooManyIterations, counter + 1, t')
             else iterate_while g nodes bs (counter + 1) t')
      else (Converged, counter, t))"
  by pat_completeness auto
termination
  by (relation "measure (\<lambda>(g, nodes, bs, counter, t). length bs + 6 - counter)") auto

declare iterate_while.simps [simp del]

definition IterateUsingMethodOfJoints ::
    "geometry \<Rightarrow> node list \<Rightarrow> bar_ref list \<Rightarrow> truss \<Rightarrow> outcome \<times> nat \<times> truss" where
  "IterateUsingMethodOfJoints g nodes bs t = iterate_while g nodes bs 0 t"

section \<open>Reaction forces and static determinacy\<close>

text \<open>
  \<^verbatim>\<open>ComputeReactions\<close>, first loop: the last pin and the last roller met, each
  as the position of the node object in the list, and how many of each were met.
\<close>

fun find_supports ::
    "node list \<Rightarrow> nat \<Rightarrow> nat option \<times> nat \<times> nat option \<times> nat
       \<Rightarrow> nat option \<times> nat \<times> nat option \<times> nat" where
  "find_supports [] i acc = acc"
| "find_supports (n # ns) i (pin_node, n_pins, roller_node, n_roller) =
     (if constraint n = ''pin''
      then find_supports ns (i + 1) (Some i, n_pins + 1, roller_node, n_roller)
      else if constraint n = ''roller_no_xdisp''
      then find_supports ns (i + 1) (pin_node, n_pins, Some i, n_roller + 1)
      else if constraint n = ''roller_no_ydisp''
      then find_supports ns (i + 1) (pin_node, n_pins, Some i, n_roller + 1)
      else find_supports ns (i + 1) (pin_node, n_pins, roller_node, n_roller))"

text \<open>
  \<^verbatim>\<open>ComputeReactions\<close>, lines 74 to 98: the pin takes what is left of the sums of
  forces in y and in x.  Node \<open>p\<close> is the pin and node \<open>r\<close> the roller.
\<close>

definition pin_reactions :: "node list \<Rightarrow> nat \<Rightarrow> nat \<Rightarrow> real \<Rightarrow> node list" where
  "pin_reactions nodes p r roller_reaction =
     (let total_external_y = foldl (\<lambda>acc n. acc + yforce_external n) 0 nodes;
          total_y = (if constraint (nodes ! r) = ''roller_no_ydisp''
                     then total_external_y + roller_reaction else total_external_y);
          pin_reaction_y = - total_y;
          nodes1 = nodes[p := AddReactionYForce pin_reaction_y (nodes ! p)];
          total_external_x = foldl (\<lambda>acc n. acc + xforce_external n) 0 nodes1;
          total_x = (if constraint (nodes1 ! r) = ''roller_no_xdisp''
                     then total_external_x + roller_reaction else total_external_x);
          pin_reaction_x = - total_x
      in nodes1[p := AddReactionXForce pin_reaction_x (nodes1 ! p)])"

text \<open>
  \<^verbatim>\<open>ComputeReactions\<close>: nodes are objects changed in place, here a list updated at
  the positions of the roller and of the pin.  Dividing by a lever arm of zero raises
  \<^verbatim>\<open>ZeroDivisionError\<close>.  The last case cannot be reached: with one pin and one
  roller counted, both variables are bound.
\<close>

definition ComputeReactions :: "node list \<Rightarrow> failure + node list" where
  "ComputeReactions nodes =
     (case find_supports nodes 0 (None, 0, None, 0) of
        (pin_node, n_pins, roller_node, n_roller) \<Rightarrow>
          if n_pins \<noteq> 1 \<or> n_roller \<noteq> 1 then Inl ReactionError
          else
            (case (pin_node, roller_node) of
               (Some p, Some r) \<Rightarrow>
                 (let (pin_x, pin_y) = location (nodes ! p);
                      (roller_x, roller_y) = location (nodes ! r);
                      roller_reaction =
                        foldl (\<lambda>acc n.
                                 let (node_x, node_y) = location n
                                 in acc + yforce_external n * (node_x - pin_x)
                                      + xforce_external n * (pin_y - node_y))
                          0 nodes
                  in if constraint (nodes ! r) = ''roller_no_xdisp'' then
                       (if pin_y - roller_y = 0 then Inl ZeroDivisionError
                        else
                          (let roller_reaction' = - roller_reaction / (pin_y - roller_y);
                               nodes1 = nodes[r := AddReactionXForce roller_reaction' (nodes ! r)]
                           in Inr (pin_reactions nodes1 p r roller_reaction')))
                     else if constraint (nodes ! r) = ''roller_no_ydisp'' then
                       (if roller_x - pin_x = 0 then Inl ZeroDivisionError
                        else
                          (let roller_reaction' = - roller_reaction / (roller_x - pin_x);
                               nodes1 = nodes[r := AddReactionYForce roller_reaction' (nodes ! r)]
                           in Inr (pin_reactions nodes1 p r roller_reaction')))
                     else Inr (pin_reactions nodes p r roller_reaction))
             | _ \<Rightarrow> Inl ReactionError))"

text \<open>
  \<^verbatim>\<open>StaticallyDeterminate\<close>: the method \<^verbatim>\<open>ConstraintType()\<close> of the absent class
  \<^verbatim>\<open>Node\<close> is a parameter; it returns a list of integers.
\<close>

fun count_reactions :: "(node \<Rightarrow> int list) \<Rightarrow> node list \<Rightarrow> nat \<Rightarrow> failure + nat" where
  "count_reactions ConstraintType [] n_reactions = Inr n_reactions"
| "count_reactions ConstraintType (n # ns) n_reactions =
     (if (\<exists>c \<in> set (ConstraintType n). c \<noteq> 0) then
        (if 2 \<in> set (ConstraintType n) then Inl MomentReactionError
         else if - 1 \<in> set (ConstraintType n) then Inl InvalidConstraintError
         else count_reactions ConstraintType ns (n_reactions + length (ConstraintType n)))
      else count_reactions ConstraintType ns n_reactions)"

definition StaticallyDeterminate ::
    "(node \<Rightarrow> int list) \<Rightarrow> node list \<Rightarrow> bar_ref list \<Rightarrow> failure + bool" where
  "StaticallyDeterminate ConstraintType nodes bs =
     (let n_nodes = length nodes; n_bars = length bs
      in case count_reactions ConstraintType nodes 0 of
           Inl e \<Rightarrow> Inl e
         | Inr n_reactions \<Rightarrow>
             if n_bars + n_reactions < 2 * n_nodes then Inl UnstableError
             else if n_bars + n_reactions > 2 * n_nodes then Inl IndeterminateError
             else Inr True)"

section \<open>Closed forms of the two equilibrium sums\<close>

text \<open>
  The sum of projections that \<^verbatim>\<open>SumOfForcesInLocalX\<close> negates: the net force
  projected by cosine on the target's axis, and one cosine term for every other
  incident bar that is computed.
\<close>

definition local_x_sum :: "geometry \<Rightarrow> node \<Rightarrow> bar_ref \<Rightarrow> (bar_ref \<Rightarrow> bar) \<Rightarrow> real" where
  "local_x_sum g n x h =
     GetNetXForce n * CosineVectors g (BarNodeToVector g n x) (1, 0)
     + GetNetYForce n * CosineVectors g (BarNodeToVector g n x) (0, 1)
     + (\<Sum>k \<leftarrow> filter (\<lambda>k. k \<noteq> x \<and> is_computed (h k)) (bars n).
          axial_load (h k)
            * CosineVectors g (BarNodeToVector g n x) (BarNodeToVector g n k))"

text \<open>
  The sum that \<^verbatim>\<open>SumOfForcesInLocalY\<close> divides: the net force projected by sine
  on the axis perpendicular to the reference bar, and one sine term for every incident
  bar that is computed.
\<close>

definition local_y_sum :: "geometry \<Rightarrow> node \<Rightarrow> bar_ref \<Rightarrow> (bar_ref \<Rightarrow> bar) \<Rightarrow> real" where
  "local_y_sum g n a h =
     GetNetXForce n * SineVectors g (BarNodeToVector g n a) (1, 0)
     + GetNetYForce n * SineVectors g (BarNodeToVector g n a) (0, 1)
     + (\<Sum>k \<leftarrow> filter (\<lambda>k. is_computed (h k)) (bars n).
          axial_load (h k)
            * SineVectors g (BarNodeToVector g n a) (BarNodeToVector g n k))"

section \<open>A worked truss\<close>

text \<open>
  Modelled from the spec: the module \<^verbatim>\<open>Geometry_Operations\<close> is missing from the
  sources.  \<^verbatim>\<open>BarNodeToVector\<close> is the direction from the node toward the bar's
  far endpoint, \<^verbatim>\<open>CosineVectors\<close> and \<^verbatim>\<open>SineVectors\<close> are the cosine and
  the signed sine of the angle between two plane vectors, of one handedness.  The two
  endpoints of each bar are given by a table.
\<close>

definition plane_geometry :: "(bar_ref \<Rightarrow> vec \<times> vec) \<Rightarrow> geometry" where
  "plane_geometry ends =
     \<lparr>BarNodeToVector =
        (\<lambda>n b. let (p, q) = ends b
               in if location n = p then (fst q - fst p, snd q - snd p)
                  else (fst p - fst q, snd p - snd q)),
      CosineVectors =
        (\<lambda>u v. (fst u * fst v + snd u * snd v)
               / (sqrt (fst u * fst u + snd u * snd u) * sqrt (fst v * fst v + snd v * snd v))),
      SineVectors =
        (\<lambda>u v. (fst u * snd v - snd u * fst v)
               / (sqrt (fst u * fst u + snd u * snd u) * sqrt (fst v * fst v + snd v * snd v)))\<rparr>"

text \<open>
  A right triangle with legs 4 and 3: bar 0 joins joints 0 and 1, bar 1 joins joints 0
  and 2, bar 2 joins joints 1 and 2.  Joint 0 is pinned, joint 1 is on a roller, joint
  2 carries a horizontal load of 8; the reactions are the ones of global equilibrium.
\<close>

definition triangle_ends :: "bar_ref \<Rightarrow> vec \<times> vec" where
  "triangle_ends b =
     (if b = 0 then ((0, 0), (4, 0)) else if b = 1 then ((0, 0), (0, 3)) else ((4, 0), (0, 3)))"

definition triangle_geometry :: geometry where
  "triangle_geometry = plane_geometry triangle_ends"

definition joint_0 :: node where
  "joint_0 = \<lparr>idx = 0, bars = [0, 1], location = (0, 0), constraint = ''pin'',
     xforce_external = 0, yforce_external = 0, xforce_reaction = - 8, yforce_reaction = - 6\<rparr>"

definition joint_1 :: node where
  "joint_1 = \<lparr>idx = 1, bars = [0, 2], location = (4, 0), constraint = ''roller_no_ydisp'',
     xforce_external = 0, yforce_external = 0, xforce_reaction = 0, yforce_reaction = 6\<rparr>"

definition joint_2 :: node where
  "joint_2 = \<lparr>idx = 2, bars = [1, 2], location = (0, 3), constraint = ''none'',
     xforce_external = 8, yforce_external = 0, xforce_reaction = 0, yforce_reaction = 0\<rparr>"

text \<open>A truss in which no bar is computed yet and nothing has been written.\<close>

definition fresh_truss :: truss where
  "fresh_truss = \<lparr>heap = (\<lambda>b. \<lparr>is_computed = False, axial_load = 0\<rparr>), trail = []\<rparr>"

section \<open>Notions used to state the properties\<close>

text \<open>The load that the two-unknown form gives its target \<open>b\<close>, with reference axis \<open>a\<close>.\<close>

definition two_unknown_load :: "geometry \<Rightarrow> node \<Rightarrow> bar_ref \<Rightarrow> bar_ref \<Rightarrow> (bar_ref \<Rightarrow> bar) \<Rightarrow> real" where
  "two_unknown_load g n a b h =
     - local_y_sum g n a h / SineVectors g (BarNodeToVector g n a) (BarNodeToVector g n b)"

text \<open>Heap \<open>h'\<close> keeps every bar that is computed in \<open>h\<close> exactly as it is.\<close>

definition frozen :: "(bar_ref \<Rightarrow> bar) \<Rightarrow> (bar_ref \<Rightarrow> bar) \<Rightarrow> bool" where
  "frozen h h' \<longleftrightarrow> (\<forall>k. is_computed (h k) \<longrightarrow> h' k = h k)"

text \<open>The bars that appear in the incidence list of some node of the list.\<close>

definition incident :: "node list \<Rightarrow> bar_ref set" where
  "incident ns = (\<Union>n \<in> set ns. set (bars n))"

text \<open>The incident bars that are not computed yet.\<close>

definition unresolved :: "node list \<Rightarrow> (bar_ref \<Rightarrow> bar) \<Rightarrow> bar_ref set" where
  "unresolved ns h = {k \<in> incident ns. \<not> is_computed (h k)}"

text \<open>
  What every run of the \<^verbatim>\<open>while\<close> loop guarantees, from pass counter \<open>c\<close> and truss
  \<open>t\<close>, about its outcome, final counter and final truss.
\<close>

definition driver_summary ::
    "geometry \<Rightarrow> node list \<Rightarrow> bar_ref list \<Rightarrow> nat \<Rightarrow> truss \<Rightarrow> outcome \<times> nat \<times> truss \<Rightarrow> bool" where
  "driver_summary g ns bs c t res \<longleftrightarrow>
     (case res of (out, c', t') \<Rightarrow>
        frozen (heap t) (heap t')
        \<and> (\<forall>k. k \<notin> incident ns \<longrightarrow> heap t' k = heap t k)
        \<and> c \<le> c'
        \<and> (out = Converged \<longrightarrow> unresolved ns (heap t') = {})
        \<and> (out = SysExit StuckError \<longrightarrow>
              unresolved ns (heap t') \<noteq> {} \<and> (\<forall>n \<in> set ns. \<not> NodeIsViable n t'))
        \<and> (\<forall>e. out = SysExit e \<longrightarrow> e = StuckError \<or> (\<exists>n \<in> set ns. e = GeometryError (idx n)))
        \<and> (out = TooManyIterations \<longrightarrow>
              length bs + 5 < c'
              \<and> (\<exists>t0. unresolved ns (heap t0) \<noteq> {} \<and> scan_nodes g ns False t0 = (None, True, t')))
        \<and> (c + card (unresolved ns (heap t)) \<le> length bs \<longrightarrow>
              out \<noteq> TooManyIterations \<and> c' + card (unresolved ns (heap t')) \<le> length bs))"

section \<open>Further trusses used as examples\<close>

text \<open>A joint with three bars, none of them computed: it is not viable.\<close>

definition crowded_joint :: node where
  "crowded_joint = \<lparr>idx = 0, bars = [0, 1, 2], location = (0, 0), constraint = ''none'',
     xforce_external = 0, yforce_external = 0, xforce_reaction = 0, yforce_reaction = 0\<rparr>"

text \<open>A joint at the origin whose only bar is bar 0 of the triangle.\<close>

definition lone_joint :: node where
  "lone_joint = \<lparr>idx = 0, bars = [0], location = (0, 0), constraint = ''none'',
     xforce_external = 0, yforce_external = 0, xforce_reaction = 0, yforce_reaction = 0\<rparr>"

text \<open>
  A comb: joints 0 to 5 lie on the x-axis at unit distance, bar \<open>k\<close> (for \<open>k < 6\<close>)
  runs along the axis and ends at joint \<open>k\<close>, bar \<open>k + 6\<close> is the tooth that stands
  on joint \<open>k\<close>.  Joints 0 to 4 have three bars each, joint 5 has one.  No joint is
  loaded.  Scanned in the order 0 to 5, only the last joint is viable in the first
  pass, and each later pass resolves the joint before.
\<close>

definition comb_ends :: "bar_ref \<Rightarrow> vec \<times> vec" where
  "comb_ends b =
     (if b < 6 then ((real b - 1, 0), (real b, 0)) else ((real b - 6, 0), (real b - 6, 1)))"

definition comb_geometry :: geometry where
  "comb_geometry = plane_geometry comb_ends"

definition comb_joint :: "nat \<Rightarrow> node" where
  "comb_joint k = \<lparr>idx = k, bars = (if k < 5 then [k, k + 1, k + 6] else [k]),
     location = (real k, 0), constraint = ''none'',
     xforce_external = 0, yforce_external = 0, xforce_reaction = 0, yforce_reaction = 0\<rparr>"

definition comb_nodes :: "node list" where
  "comb_nodes = map comb_joint [0, 1, 2, 3, 4, 5]"

section \<open>Reading the audit trail\<close>

text \<open>A flag write that sets a flag back to false after it was true.\<close>

definition reverts_flag :: "event \<Rightarrow> bool" where
  "reverts_flag e = (case e of FlagWrite b was v \<Rightarrow> was \<and> \<not> v | _ \<Rightarrow> False)"

text \<open>A load write that changes the load of a bar whose flag was already true.\<close>

definition changes_set_load :: "event \<Rightarrow> bool" where
  "changes_set_load e = (case e of LoadWrite b was old new \<Rightarrow> was \<and> new \<noteq> old | _ \<Rightarrow> False)"

text \<open>Any load write to a bar whose flag was already true.\<close>

definition rewrites_set_load :: "event \<Rightarrow> bool" where
  "rewrites_set_load e = (case e of LoadWrite b was old new \<Rightarrow> was | _ \<Rightarrow> False)"

text \<open>A solver handed a target whose flag was already true.\<close>

definition solves_resolved :: "event \<Rightarrow> bool" where
  "solves_resolved e = (case e of SolverCall b was \<Rightarrow> was | _ \<Rightarrow> False)"

text \<open>
  The events \<open>evs\<close> respect the one-way discipline: no flag is cleared, and, when
  \<open>strict\<close> holds, no load of a resolved bar changes and no solver is called on a
  resolved bar.
\<close>

definition orderly :: "bool \<Rightarrow> event list \<Rightarrow> bool" where
  "orderly strict evs \<longleftrightarrow>
     (\<forall>e \<in> set evs. \<not> reverts_flag e
        \<and> (strict \<longrightarrow> \<not> changes_set_load e \<and> \<not> solves_resolved e))"

text \<open>The fresh truss, except that bar 0 is already computed with load 8.\<close>

definition half_known_truss :: truss where
  "half_known_truss =
     \<lparr>heap = (heap fresh_truss)(0 := \<lparr>is_computed = True, axial_load = 8\<rparr>), trail = []\<rparr>"

section \<open>Global equilibrium\<close>

definition is_pin :: "node \<Rightarrow> bool" where
  "is_pin n \<longleftrightarrow> constraint n = ''pin''"

definition is_roller :: "node \<Rightarrow> bool" where
  "is_roller n \<longleftrightarrow> constraint n = ''roller_no_xdisp'' \<or> constraint n = ''roller_no_ydisp''"

text \<open>
  The lever arm of the roller's reaction about the pin: the difference of heights for a
  roller that holds x, the difference of abscissas for a roller that holds y.
\<close>

definition lever_arm :: "node \<Rightarrow> node \<Rightarrow> real" where
  "lever_arm p r =
     (if constraint r = ''roller_no_xdisp'' then snd (location p) - snd (location r)
      else fst (location r) - fst (location p))"

text \<open>The moment about the point \<open>q\<close> of the forces \<open>(fx n, fy n)\<close> applied at the nodes.\<close>

definition moment_about :: "vec \<Rightarrow> (node \<Rightarrow> real) \<Rightarrow> (node \<Rightarrow> real) \<Rightarrow> node list \<Rightarrow> real" where
  "moment_about q fx fy ns =
     (\<Sum>n \<leftarrow> ns. (fst (location n) - fst q) * fy n - (snd (location n) - snd q) * fx n)"

text \<open>The triangle before its reactions are computed.\<close>

definition unsupported_triangle :: "node list" where
  "unsupported_triangle =
     [joint_0\<lparr>xforce_reaction := 0, yforce_reaction := 0\<rparr>,
      joint_1\<lparr>xforce_reaction := 0, yforce_reaction := 0\<rparr>,
      joint_2\<lparr>xforce_reaction := 0, yforce_reaction := 0\<rparr>]"

text \<open>
  The same, with the roller at joint 1 holding x instead of y: its reaction passes
  through the pin, which lies at the same height.
\<close>

definition level_roller_triangle :: "node list" where
  "level_roller_triangle =
     [joint_0\<lparr>xforce_reaction := 0, yforce_reaction := 0\<rparr>,
      joint_1\<lparr>constraint := ''roller_no_xdisp'', xforce_reaction := 0, yforce_reaction := 0\<rparr>,
      joint_2\<lparr>xforce_reaction := 0, yforce_reaction := 0\<rparr>]"

section \<open>A complex truss\<close>

text \<open>
  An instance of the parameter \<^verbatim>\<open>ConstraintType\<close>, assumed for the examples: one
  entry 1 for each reaction component of the support, two for a pin, one for a roller,
  none for a free joint.
\<close>

definition reaction_codes :: "node \<Rightarrow> int list" where
  "reaction_codes n =
     (if constraint n = ''pin'' then [1, 1]
      else if constraint n = ''roller_no_xdisp'' \<or> constraint n = ''roller_no_ydisp'' then [1]
      else [])"

text \<open>
  Modelled from the spec: the spec names kinematic stability and gives no definition.
  This is the notion of statics for a truss with \<open>b + r = 2j\<close>: the unloaded truss
  admits no bar forces \<open>f\<close> and support reactions \<open>(rx, ry)\<close> in equilibrium at
  every joint other than zero.  (The equilibrium matrix is square, so this says it is
  regular: every load has exactly one answer and the truss has no mechanism.)  A bar
  force is positive in tension and acts on a joint along the bar's direction from that
  joint, as in the solver; a pin gives reactions in x and y, a roller in the direction
  it holds.
\<close>

definition kinematically_stable :: "geometry \<Rightarrow> node list \<Rightarrow> bool" where
  "kinematically_stable g ns \<longleftrightarrow>
     (\<forall>f rx ry.
        (\<forall>n \<in> set ns.
           (\<Sum>b \<leftarrow> bars n. f b * CosineVectors g (BarNodeToVector g n b) (1, 0)) + rx n = 0
           \<and> (\<Sum>b \<leftarrow> bars n. f b * CosineVectors g (BarNodeToVector g n b) (0, 1)) + ry n = 0
           \<and> (constraint n \<noteq> ''pin'' \<and> constraint n \<noteq> ''roller_no_xdisp'' \<longrightarrow> rx n = 0)
           \<and> (constraint n \<noteq> ''pin'' \<and> constraint n \<noteq> ''roller_no_ydisp'' \<longrightarrow> ry n = 0))
        \<longrightarrow> (\<forall>b \<in> incident ns. f b = 0) \<and> (\<forall>n \<in> set ns. rx n = 0 \<and> ry n = 0))"

text \<open>
  Two triangles joined by three bars, joints 0 to 2 and joints 3 to 5; every bar has
  an integer length.  Joint 0 is pinned and joint 1 is on a roller that holds y, so
  there are 9 bars, 3 reactions and 6 joints.  Every joint has three bars.  No joint
  is loaded.
\<close>

definition prism_points :: "vec list" where
  "prism_points = [(0, 0), (4, 0), (0, 3), (8, 6), (4, 9), (8, 9)]"

definition prism_bar_ends :: "(nat \<times> nat) list" where
  "prism_bar_ends = [(0, 1), (0, 2), (1, 2), (3, 4), (3, 5), (4, 5), (0, 3), (1, 4), (2, 5)]"

definition prism_ends :: "bar_ref \<Rightarrow> vec \<times> vec" where
  "prism_ends b =
     (if b < 9 then (prism_points ! fst (prism_bar_ends ! b), prism_points ! snd (prism_bar_ends ! b))
      else ((0, 0), (0, 0)))"

definition prism_geometry :: geometry where
  "prism_geometry = plane_geometry prism_ends"

definition prism_joint :: "nat \<Rightarrow> node" where
  "prism_joint k =
     \<lparr>idx = k,
      bars = [[0, 1, 6], [0, 2, 7], [1, 2, 8], [3, 4, 6], [3, 5, 7], [4, 5, 8]] ! k,
      location = prism_points ! k,
      constraint = (if k = 0 then ''pin'' else if k = 1 then ''roller_no_ydisp'' else ''none''),
      xforce_external = 0, yforce_external = 0, xforce_reaction = 0, yforce_reaction = 0\<rparr>"

definition prism_nodes :: "node list" where
  "prism_nodes = map prism_joint [0, 1, 2, 3, 4, 5]"

definition prism_bars :: "bar_ref list" where
  "prism_bars = [0, 1, 2, 3, 4, 5, 6, 7, 8]"

text \<open>
  The condition of the geometry error at a node: two unknown bars, in the order of
  the node's list, whose sine is below the threshold of \<^verbatim>\<open>SumOfForcesInLocalY\<close>.
\<close>

definition collinear_unknowns :: "geometry \<Rightarrow> node \<Rightarrow> truss \<Rightarrow> bool" where
  "collinear_unknowns g n t =
     (case UnknownBars n t of
        [a, b] \<Rightarrow> \<bar>SineVectors g (BarNodeToVector g n a) (BarNodeToVector g n b)\<bar> < 1 / 10 ^ 9
      | _ \<Rightarrow> False)"

section \<open>Values beyond the float range\<close>

text \<open>
  The loads are kept as real numbers.  What a Python float (IEEE binary64, round to
  nearest) holds when the exact result of an operation is \<open>x\<close>: an infinity once the
  magnitude of \<open>x\<close> reaches \<open>2^1024 - 2^970\<close>, a finite value below that.  The rounding
  of a finite value is not modelled.
\<close>

datatype float_value = Finite real | Infinite

definition as_float :: "real \<Rightarrow> float_value" where
  "as_float x = (if 2 ^ 1024 - 2 ^ 970 \<le> \<bar>x\<bar> then Infinite else Finite x)"

text \<open>
  A joint with two bars that are nearly in line: bar 0 runs from the joint to
  \<open>(1, 0)\<close>, bar 1 to \<open>(2^52 - 1, 2^27)\<close>, of length \<open>2^52 + 1\<close>; the sine of the
  angle between them is about \<open>3e-8\<close>.  The joint carries the load \<open>2^1023\<close> in y.
  Every coordinate and the load are floats.
\<close>

definition needle_ends :: "bar_ref \<Rightarrow> vec \<times> vec" where
  "needle_ends b = (if b = 0 then ((0, 0), (1, 0)) else ((0, 0), (2 ^ 52 - 1, 2 ^ 27)))"

definition needle_geometry :: geometry where
  "needle_geometry = plane_geometry needle_ends"

definition needle_joint :: node where
  "needle_joint = \<lparr>idx = 0, bars = [0, 1], location = (0, 0), constraint = ''none'',
     xforce_external = 0, yforce_external = 2 ^ 1023, xforce_reaction = 0, yforce_reaction = 0\<rparr>"

section \<open>Basic facts\<close>

lemma foldl_append_filter:
  "foldl (\<lambda>acc b. if P b then acc @ [b] else acc) acc xs = acc @ filter P xs"
  by (induction xs arbitrary: acc) simp_all

lemma UnknownBars_filter:
  "UnknownBars n t = filter (\<lambda>b. \<not> is_computed (heap t b)) (bars n)"
  unfolding UnknownBars_def
  using foldl_append_filter [of "\<lambda>b. \<not> is_computed (heap t b)" "[]" "bars n"]
  by simp

lemma foldl_cond_add:
  "foldl (\<lambda>acc b. if P b then acc + f b else acc) s xs
     = (s::real) + sum_list (map f (filter P xs))"
  by (induction xs arbitrary: s) simp_all

lemma foldl_cond2_add:
  "foldl (\<lambda>acc b. if Q b then (if P b then acc + f b else acc) else acc) s xs
     = (s::real) + sum_list (map f (filter (\<lambda>b. Q b \<and> P b) xs))"
  by (induction xs arbitrary: s) simp_all

lemma heap_write_axial_load [simp]:
  "heap (write_axial_load b v t) = (heap t)(b := (heap t b)\<lparr>axial_load := v\<rparr>)"
  by (simp add: write_axial_load_def)

lemma heap_write_is_computed [simp]:
  "heap (write_is_computed b v t) = (heap t)(b := (heap t b)\<lparr>is_computed := v\<rparr>)"
  by (simp add: write_is_computed_def)

lemma heap_SetAxialLoad [simp]:
  "heap (SetAxialLoad b v t) = (heap t)(b := (heap t b)\<lparr>axial_load := v\<rparr>)"
  by (simp add: SetAxialLoad_def)

lemma heap_note_solver_call [simp]: "heap (note_solver_call b t) = heap t"
  by (simp add: note_solver_call_def)

lemma bar_overwritten [simp]:
  "(r :: bar)\<lparr>axial_load := v, is_computed := c\<rparr> = \<lparr>is_computed = c, axial_load = v\<rparr>"
  by (cases r) simp

lemma fst_SumOfForcesInLocalX:
  "fst (SumOfForcesInLocalX g n x t) = - local_x_sum g n x (heap t)"
  by (simp add: SumOfForcesInLocalX_def Let_def foldl_cond2_add local_x_sum_def)

lemma heap_SumOfForcesInLocalX:
  "heap (snd (SumOfForcesInLocalX g n x t))
     = (heap t)(x := \<lparr>is_computed = True, axial_load = - local_x_sum g n x (heap t)\<rparr>)"
  by (simp add: SumOfForcesInLocalX_def Let_def foldl_cond2_add local_x_sum_def)

section \<open>The viability classifier\<close>

text \<open>
  Claim C8.  \<^verbatim>\<open>UnknownBars\<close> returns exactly the incident bars whose flag is
  false, in the order of the node's incidence list, and \<^verbatim>\<open>NodeIsViable\<close> is true
  exactly when there are one or two of them.  Both functions only read the truss: they
  return a value and no truss.
\<close>

theorem viability_classifier:
  "UnknownBars n t = filter (\<lambda>b. \<not> is_computed (heap t b)) (bars n) \<and>
   (NodeIsViable n t \<longleftrightarrow>
      length (filter (\<lambda>b. \<not> is_computed (heap t b)) (bars n)) \<in> {1, 2})"
proof -
  have "NodeIsViable n t \<longleftrightarrow> length (UnknownBars n t) \<in> {1, 2}"
    unfolding NodeIsViable_def Let_def by auto
  then show ?thesis by (simp add: UnknownBars_filter)
qed

section \<open>Facts about the worked truss\<close>

lemma sqrt_squares [simp]: "sqrt 9 = 3" "sqrt 16 = 4" "sqrt 25 = 5"
proof -
  have "sqrt (3\<^sup>2) = 3" "sqrt (4\<^sup>2) = 4" "sqrt (5\<^sup>2) = 5" by simp_all
  then show "sqrt 9 = 3" "sqrt 16 = 4" "sqrt 25 = 5" by simp_all
qed

lemma joint_0_fields [simp]:
  "idx joint_0 = 0" "bars joint_0 = [0, 1]" "location joint_0 = (0, 0)"
  "GetNetXForce joint_0 = - 8" "GetNetYForce joint_0 = - 6"
  by (simp_all add: joint_0_def GetNetXForce_def GetNetYForce_def)

lemma joint_1_fields [simp]:
  "idx joint_1 = 1" "bars joint_1 = [0, 2]" "location joint_1 = (4, 0)"
  "GetNetXForce joint_1 = 0" "GetNetYForce joint_1 = 6"
  by (simp_all add: joint_1_def GetNetXForce_def GetNetYForce_def)

lemma joint_2_fields [simp]:
  "idx joint_2 = 2" "bars joint_2 = [1, 2]" "location joint_2 = (0, 3)"
  "GetNetXForce joint_2 = 8" "GetNetYForce joint_2 = 0"
  by (simp_all add: joint_2_def GetNetXForce_def GetNetYForce_def)

lemma triangle_vectors [simp]:
  "BarNodeToVector triangle_geometry joint_0 0 = (4, 0)"
  "BarNodeToVector triangle_geometry joint_0 (Suc 0) = (0, 3)"
  "BarNodeToVector triangle_geometry joint_1 0 = (- 4, 0)"
  "BarNodeToVector triangle_geometry joint_1 2 = (- 4, 3)"
  "BarNodeToVector triangle_geometry joint_2 (Suc 0) = (0, - 3)"
  "BarNodeToVector triangle_geometry joint_2 2 = (4, - 3)"
  by (simp_all add: triangle_geometry_def plane_geometry_def triangle_ends_def)

lemma triangle_angles [simp]:
  "CosineVectors triangle_geometry u v =
     (fst u * fst v + snd u * snd v)
       / (sqrt (fst u * fst u + snd u * snd u) * sqrt (fst v * fst v + snd v * snd v))"
  "SineVectors triangle_geometry u v =
     (fst u * snd v - snd u * fst v)
       / (sqrt (fst u * fst u + snd u * snd u) * sqrt (fst v * fst v + snd v * snd v))"
  by (simp_all add: triangle_geometry_def plane_geometry_def)

lemma fresh_truss_fields [simp]:
  "heap fresh_truss b = \<lparr>is_computed = False, axial_load = 0\<rparr>" "trail fresh_truss = []"
  by (simp_all add: fresh_truss_def)

lemma comb_fields [simp]:
  "idx (comb_joint k) = k" "bars (comb_joint k) = (if k < 5 then [k, k + 1, k + 6] else [k])"
  "location (comb_joint k) = (real k, 0)"
  "GetNetXForce (comb_joint k) = 0" "GetNetYForce (comb_joint k) = 0"
  by (simp_all add: comb_joint_def GetNetXForce_def GetNetYForce_def)

lemma comb_geometry_simps [simp]:
  "BarNodeToVector comb_geometry n b =
     (let (p, q) = comb_ends b
      in if location n = p then (fst q - fst p, snd q - snd p)
         else (fst p - fst q, snd p - snd q))"
  "CosineVectors comb_geometry u v =
     (fst u * fst v + snd u * snd v)
       / (sqrt (fst u * fst u + snd u * snd u) * sqrt (fst v * fst v + snd v * snd v))"
  "SineVectors comb_geometry u v =
     (fst u * snd v - snd u * fst v)
       / (sqrt (fst u * fst u + snd u * snd u) * sqrt (fst v * fst v + snd v * snd v))"
  by (simp_all add: comb_geometry_def plane_geometry_def)

section \<open>The two-unknown form\<close>

lemma needle_norm [simp]: "sqrt 20282409603651679431146506027009 = 4503599627370497"
proof -
  have "sqrt (4503599627370497\<^sup>2) = 4503599627370497" by simp
  then show ?thesis by simp
qed

lemma needle_fields [simp]:
  "idx needle_joint = 0" "bars needle_joint = [0, 1]" "location needle_joint = (0, 0)"
  "GetNetXForce needle_joint = 0" "GetNetYForce needle_joint = 2 ^ 1023"
  by (simp_all add: needle_joint_def GetNetXForce_def GetNetYForce_def)

lemma needle_geometry_simps:
  "BarNodeToVector needle_geometry needle_joint 0 = (1, 0)"
  "BarNodeToVector needle_geometry needle_joint (Suc 0) = (4503599627370495, 134217728)"
  "SineVectors needle_geometry (1, 0) (1, 0) = 0"
  "SineVectors needle_geometry (1, 0) (0, 1) = 1"
  "SineVectors needle_geometry (1, 0) (4503599627370495, 134217728)
     = 134217728 / 4503599627370497"
  by (simp_all add: needle_geometry_def plane_geometry_def needle_ends_def)

lemma quotient_bound:
  fixes y s :: real
  assumes "\<not> \<bar>s\<bar> < 1 / 10 ^ 9"
  shows "\<bar>- y / s\<bar> \<le> 10 ^ 9 * \<bar>y\<bar>"
proof -
  from assms have s: "1 / 10 ^ 9 \<le> \<bar>s\<bar>" by simp
  then have pos: "0 < \<bar>s\<bar>" by (simp add: less_le_trans [of 0 "1 / 10 ^ 9"])
  have "\<bar>y\<bar> = \<bar>y\<bar> * 10 ^ 9 * (1 / 10 ^ 9)" by simp
  also have "\<dots> \<le> \<bar>y\<bar> * 10 ^ 9 * \<bar>s\<bar>"
    using s by (intro mult_left_mono) simp_all
  finally have "\<bar>y\<bar> / \<bar>s\<bar> \<le> \<bar>y\<bar> * 10 ^ 9"
    using pos by (simp add: pos_divide_le_eq)
  then show ?thesis by (simp add: mult.commute)
qed

text \<open>
  Against claim C3, which says that a load of \<open>inf\<close> is never produced silently: at the
  joint with two bars nearly in line the sine, about \<open>3e-8\<close>, passes the guard of
  \<open>1e-9\<close>; \<^verbatim>\<open>SumOfForcesInLocalY\<close> returns a load, marks bar 1 computed and raises
  nothing, and the load it stores, \<open>- 2^1023 * (2^52 + 1) / 2^27\<close>, is beyond the
  range of a float: the float stored is an infinity.
\<close>

theorem SumOfForcesInLocalY_two_unknowns_counterexample:
  "fst (SumOfForcesInLocalY needle_geometry needle_joint [0, 1] fresh_truss)
     = Inr (- (2 ^ 1023 * (2 ^ 52 + 1) / 2 ^ 27))
   \<and> is_computed (heap (snd (SumOfForcesInLocalY needle_geometry needle_joint [0, 1]
        fresh_truss)) 1)
   \<and> as_float (axial_load (heap (snd (SumOfForcesInLocalY needle_geometry needle_joint [0, 1]
        fresh_truss)) 1)) = Infinite"
proof -
  have v: "fst (SumOfForcesInLocalY needle_geometry needle_joint [0, 1] fresh_truss)
     = Inr (- (2 ^ 1023 * (2 ^ 52 + 1) / 2 ^ 27))"
    "heap (snd (SumOfForcesInLocalY needle_geometry needle_joint [0, 1] fresh_truss)) 1
      = \<lparr>is_computed = True, axial_load = - (2 ^ 1023 * (2 ^ 52 + 1) / 2 ^ 27)\<rparr>"
    by (simp_all add: SumOfForcesInLocalY_def Let_def needle_geometry_simps)
  have "as_float (- (2 ^ 1023 * (2 ^ 52 + 1) / 2 ^ 27)) = Infinite"
    by (simp add: as_float_def)
  with v show ?thesis by simp
qed

text \<open>
  Claim C3, amended.  Given at least two unknown bars \<open>a\<close> (the reference axis) and
  \<open>b\<close> (the target), \<^verbatim>\<open>SumOfForcesInLocalY\<close> ends with the geometry error that names
  the node's index exactly when the sine of the angle between the two bars is below
  \<open>1e-9\<close> in absolute value, and then it returns the truss as it received it, nothing
  written.  Otherwise the divisor has magnitude at least \<open>1e-9\<close>, the target's load is
  minus the sum of the sine projections (net force and every computed incident bar)
  divided by that sine, the target is marked computed, the load is the value returned,
  and no other bar changes.  The guard bounds the load by \<open>1e9\<close> times the magnitude of
  that sum and by nothing else: it keeps the divisor away from zero, it does not keep
  the quotient within the float range.
\<close>

theorem SumOfForcesInLocalY_two_unknowns:
  "let s = SineVectors g (BarNodeToVector g n a) (BarNodeToVector g n b);
       r = SumOfForcesInLocalY g n (a # b # rest) t
   in (fst r = Inl (GeometryError (idx n)) \<longleftrightarrow> \<bar>s\<bar> < 1 / 10 ^ 9)
      \<and> (\<bar>s\<bar> < 1 / 10 ^ 9 \<longrightarrow> snd r = t)
      \<and> (\<not> \<bar>s\<bar> < 1 / 10 ^ 9 \<longrightarrow>
           1 / 10 ^ 9 \<le> \<bar>s\<bar>
           \<and> fst r = Inr (- local_y_sum g n a (heap t) / s)
           \<and> heap (snd r) b
               = \<lparr>is_computed = True, axial_load = - local_y_sum g n a (heap t) / s\<rparr>
           \<and> (\<forall>k. k \<noteq> b \<longrightarrow> heap (snd r) k = heap t k)
           \<and> \<bar>- local_y_sum g n a (heap t) / s\<bar> \<le> 10 ^ 9 * \<bar>local_y_sum g n a (heap t)\<bar>)"
  using quotient_bound [of "SineVectors g (BarNodeToVector g n a) (BarNodeToVector g n b)"
      "local_y_sum g n a (heap t)"]
  by (auto simp add: SumOfForcesInLocalY_def Let_def foldl_cond_add local_y_sum_def)

theorem SumOfForcesInLocalY_two_unknowns_witness:
  "fst (SumOfForcesInLocalY triangle_geometry joint_0 [0, 1] fresh_truss) = Inr 6
   \<and> heap (snd (SumOfForcesInLocalY triangle_geometry joint_0 [0, 1] fresh_truss)) 1
       = \<lparr>is_computed = True, axial_load = 6\<rparr>
   \<and> heap (snd (SumOfForcesInLocalY triangle_geometry joint_0 [0, 1] fresh_truss)) 0
       = \<lparr>is_computed = False, axial_load = 0\<rparr>
   \<and> SumOfForcesInLocalY comb_geometry (comb_joint 2) [2, 3] fresh_truss
       = (Inl (GeometryError 2), fresh_truss)"
proof -
  have s: "SineVectors triangle_geometry (BarNodeToVector triangle_geometry joint_0 0)
             (BarNodeToVector triangle_geometry joint_0 1) = 1"
    by simp
  have y: "local_y_sum triangle_geometry joint_0 0 (heap fresh_truss) = - 6"
    by (simp add: local_y_sum_def)
  have s0: "SineVectors comb_geometry (BarNodeToVector comb_geometry (comb_joint 2) 2)
             (BarNodeToVector comb_geometry (comb_joint 2) 3) = 0"
    by (simp add: comb_ends_def)
  have "fst (SumOfForcesInLocalY triangle_geometry joint_0 [0, 1] fresh_truss) = Inr 6
   \<and> heap (snd (SumOfForcesInLocalY triangle_geometry joint_0 [0, 1] fresh_truss)) 1
       = \<lparr>is_computed = True, axial_load = 6\<rparr>
   \<and> heap (snd (SumOfForcesInLocalY triangle_geometry joint_0 [0, 1] fresh_truss)) 0
       = \<lparr>is_computed = False, axial_load = 0\<rparr>"
    using SumOfForcesInLocalY_two_unknowns [of triangle_geometry joint_0 0 1 "[]" fresh_truss]
    by (simp add: Let_def s y)
  moreover have "SumOfForcesInLocalY comb_geometry (comb_joint 2) [2, 3] fresh_truss
       = (Inl (GeometryError 2), fresh_truss)"
    using SumOfForcesInLocalY_two_unknowns [of comb_geometry "comb_joint 2" 2 3 "[]" fresh_truss]
    by (simp add: Let_def s0 prod_eq_iff comb_ends_def)
  ultimately show ?thesis by simp
qed

section \<open>The single-unknown form\<close>

text \<open>
  Claim C5.  When every incident bar of the node other than the target is computed,
  \<^verbatim>\<open>SumOfForcesInLocalX\<close> returns and stores in the target the negation of: the
  net x-force times the cosine of the target's direction to global X, plus the net
  y-force times the cosine to global Y, plus, for every other incident bar, its load
  times the cosine of the angle between the target and that bar.  It marks the target
  computed and changes no other bar.
\<close>

theorem SumOfForcesInLocalX_single_unknown:
  assumes "\<forall>k \<in> set (bars n). k \<noteq> target \<longrightarrow> is_computed (heap t k)"
  shows "fst (SumOfForcesInLocalX g n target t)
           = - (GetNetXForce n * CosineVectors g (BarNodeToVector g n target) (1, 0)
                + GetNetYForce n * CosineVectors g (BarNodeToVector g n target) (0, 1)
                + (\<Sum>k \<leftarrow> filter (\<lambda>k. k \<noteq> target) (bars n).
                     axial_load (heap t k)
                       * CosineVectors g (BarNodeToVector g n target) (BarNodeToVector g n k)))
         \<and> heap (snd (SumOfForcesInLocalX g n target t)) target
             = \<lparr>is_computed = True, axial_load = fst (SumOfForcesInLocalX g n target t)\<rparr>
         \<and> (\<forall>k. k \<noteq> target \<longrightarrow> heap (snd (SumOfForcesInLocalX g n target t)) k = heap t k)"
proof -
  have "filter (\<lambda>k. k \<noteq> target \<and> is_computed (heap t k)) (bars n)
          = filter (\<lambda>k. k \<noteq> target) (bars n)"
    using assms by (intro filter_cong) auto
  then show ?thesis
    by (simp add: fst_SumOfForcesInLocalX heap_SumOfForcesInLocalX local_x_sum_def)
qed

theorem SumOfForcesInLocalX_single_unknown_witness:
  "fst (SumOfForcesInLocalX triangle_geometry joint_1 2
          \<lparr>heap = (heap fresh_truss)(0 := \<lparr>is_computed = True, axial_load = 8\<rparr>), trail = []\<rparr>)
     = - 10
   \<and> heap (snd (SumOfForcesInLocalX triangle_geometry joint_1 2
          \<lparr>heap = (heap fresh_truss)(0 := \<lparr>is_computed = True, axial_load = 8\<rparr>), trail = []\<rparr>)) 2
     = \<lparr>is_computed = True, axial_load = - 10\<rparr>"
  using SumOfForcesInLocalX_single_unknown [of joint_1 2
          "\<lparr>heap = (heap fresh_truss)(0 := \<lparr>is_computed = True, axial_load = 8\<rparr>), trail = []\<rparr>"
          triangle_geometry]
  by simp

section \<open>The loop body, the scan and the driver\<close>

lemma trail_write_axial_load [simp]:
  "trail (write_axial_load b v t)
     = trail t @ [LoadWrite b (is_computed (heap t b)) (axial_load (heap t b)) v]"
  by (simp add: write_axial_load_def)

lemma trail_write_is_computed [simp]:
  "trail (write_is_computed b v t) = trail t @ [FlagWrite b (is_computed (heap t b)) v]"
  by (simp add: write_is_computed_def)

lemma trail_SetAxialLoad [simp]:
  "trail (SetAxialLoad b v t)
     = trail t @ [LoadWrite b (is_computed (heap t b)) (axial_load (heap t b)) v]"
  by (simp add: SetAxialLoad_def)

lemma trail_note_solver_call [simp]:
  "trail (note_solver_call b t) = trail t @ [SolverCall b (is_computed (heap t b))]"
  by (simp add: note_solver_call_def)

lemma trail_SumOfForcesInLocalX:
  "trail (snd (SumOfForcesInLocalX g n x t))
     = trail t @ [LoadWrite x (is_computed (heap t x)) (axial_load (heap t x))
                    (- local_x_sum g n x (heap t)),
                  FlagWrite x (is_computed (heap t x)) True]"
  by (simp add: SumOfForcesInLocalX_def Let_def foldl_cond2_add local_x_sum_def)

lemma SumOfForcesInLocalY_small:
  "\<bar>SineVectors g (BarNodeToVector g n a) (BarNodeToVector g n b)\<bar> < 1 / 10 ^ 9
   \<Longrightarrow> SumOfForcesInLocalY g n (a # b # rest) t = (Inl (GeometryError (idx n)), t)"
  by (simp add: SumOfForcesInLocalY_def Let_def)

lemma SumOfForcesInLocalY_large:
  assumes "\<not> \<bar>SineVectors g (BarNodeToVector g n a) (BarNodeToVector g n b)\<bar> < 1 / 10 ^ 9"
  shows "fst (SumOfForcesInLocalY g n (a # b # rest) t)
           = Inr (- local_y_sum g n a (heap t)
                    / SineVectors g (BarNodeToVector g n a) (BarNodeToVector g n b))"
    and "heap (snd (SumOfForcesInLocalY g n (a # b # rest) t))
           = (heap t)(b := \<lparr>is_computed = True,
                 axial_load = - local_y_sum g n a (heap t)
                    / SineVectors g (BarNodeToVector g n a) (BarNodeToVector g n b)\<rparr>)"
    and "trail (snd (SumOfForcesInLocalY g n (a # b # rest) t))
           = trail t @ [LoadWrite b (is_computed (heap t b)) (axial_load (heap t b))
                          (- local_y_sum g n a (heap t)
                             / SineVectors g (BarNodeToVector g n a) (BarNodeToVector g n b)),
                        FlagWrite b (is_computed (heap t b)) True]"
  using assms
  by (simp_all add: SumOfForcesInLocalY_def Let_def foldl_cond_add local_y_sum_def)

lemma resolve_node_not_viable:
  "\<not> NodeIsViable n t \<Longrightarrow> resolve_node g n p t = (None, p, t)"
  by (simp add: resolve_node_def)

lemma NodeIsViable_iff: "NodeIsViable n t \<longleftrightarrow> length (UnknownBars n t) \<in> {1, 2}"
  unfolding NodeIsViable_def Let_def by auto

lemma resolve_node_one:
  assumes "UnknownBars n t = [a]"
  shows "\<exists>t'. resolve_node g n p t = (None, True, t')
           \<and> heap t' = (heap t)(a := \<lparr>is_computed = True, axial_load = - local_x_sum g n a (heap t)\<rparr>)"
proof -
  have v: "NodeIsViable n t" using assms by (simp add: NodeIsViable_iff)
  obtain f t1 where x: "SumOfForcesInLocalX g n a (note_solver_call a t) = (f, t1)"
    by (cases "SumOfForcesInLocalX g n a (note_solver_call a t)") simp
  have f: "f = - local_x_sum g n a (heap t)"
    using fst_SumOfForcesInLocalX [of g n a "note_solver_call a t"] x by simp
  have h: "heap t1 = (heap t)(a := \<lparr>is_computed = True, axial_load = - local_x_sum g n a (heap t)\<rparr>)"
    using heap_SumOfForcesInLocalX [of g n a "note_solver_call a t"] x by simp
  show ?thesis
    using v assms x by (simp add: resolve_node_def Let_def h f)
qed

lemma resolve_node_two_small:
  assumes "UnknownBars n t = [a, b]"
    and "\<bar>SineVectors g (BarNodeToVector g n a) (BarNodeToVector g n b)\<bar> < 1 / 10 ^ 9"
  shows "resolve_node g n p t = (Some (GeometryError (idx n)), p, note_solver_call b t)"
proof -
  have v: "NodeIsViable n t" using assms by (simp add: NodeIsViable_iff)
  show ?thesis
    using v assms by (simp add: resolve_node_def Let_def SumOfForcesInLocalY_small)
qed

lemma resolve_node_two_large:
  assumes u: "UnknownBars n t = [a, b]"
    and s: "\<not> \<bar>SineVectors g (BarNodeToVector g n a) (BarNodeToVector g n b)\<bar> < 1 / 10 ^ 9"
  shows "\<exists>t'. resolve_node g n p t = (None, True, t')
           \<and> heap t' = (heap t)
                (b := \<lparr>is_computed = True, axial_load = two_unknown_load g n a b (heap t)\<rparr>,
                 a := \<lparr>is_computed = True,
                        axial_load = - local_x_sum g n a ((heap t)
                          (b := \<lparr>is_computed = True,
                                 axial_load = two_unknown_load g n a b (heap t)\<rparr>))\<rparr>)"
proof -
  have v: "NodeIsViable n t" using u by (simp add: NodeIsViable_iff)
  let ?t0 = "note_solver_call b t"
  obtain r t1 where y: "SumOfForcesInLocalY g n [a, b] ?t0 = (r, t1)"
    by (cases "SumOfForcesInLocalY g n [a, b] ?t0") simp
  have r: "r = Inr (two_unknown_load g n a b (heap t))"
    using SumOfForcesInLocalY_large(1) [OF s, of "[]" ?t0] y
    by (simp add: two_unknown_load_def)
  have h1: "heap t1 = (heap t)
      (b := \<lparr>is_computed = True, axial_load = two_unknown_load g n a b (heap t)\<rparr>)"
    using SumOfForcesInLocalY_large(2) [OF s, of "[]" ?t0] y
    by (simp add: two_unknown_load_def)
  let ?t3 = "write_is_computed b True (SetAxialLoad b (two_unknown_load g n a b (heap t)) t1)"
  have h3: "heap ?t3 = heap t1" by (simp add: h1)
  obtain f t4 where x: "SumOfForcesInLocalX g n a (note_solver_call a ?t3) = (f, t4)"
    by (cases "SumOfForcesInLocalX g n a (note_solver_call a ?t3)") simp
  have f: "f = - local_x_sum g n a (heap t1)"
    using fst_SumOfForcesInLocalX [of g n a "note_solver_call a ?t3"] x h3 by simp
  have h4: "heap t4 = (heap t1)(a := \<lparr>is_computed = True, axial_load = - local_x_sum g n a (heap t1)\<rparr>)"
    using heap_SumOfForcesInLocalX [of g n a "note_solver_call a ?t3"] x h3 by simp
  have "resolve_node g n p t = (None, True, write_is_computed a True (SetAxialLoad a f t4))"
    using v u y r x by (simp add: resolve_node_def Let_def)
  moreover have "heap (write_is_computed a True (SetAxialLoad a f t4)) = heap t4"
    by (simp add: h4 f)
  ultimately show ?thesis using h4 h1 by simp
qed

lemma UnknownBars_members:
  "k \<in> set (UnknownBars n t) \<longleftrightarrow> k \<in> set (bars n) \<and> \<not> is_computed (heap t k)"
  by (simp add: UnknownBars_filter)

lemma viable_shapes:
  assumes "NodeIsViable n t"
  obtains a where "UnknownBars n t = [a]" | a b where "UnknownBars n t = [a, b]"
proof -
  from assms have "length (UnknownBars n t) = 1 \<or> length (UnknownBars n t) = 2"
    by (simp add: NodeIsViable_iff)
  then show thesis
  proof
    assume "length (UnknownBars n t) = 1"
    then obtain a where "UnknownBars n t = [a]"
      by (cases "UnknownBars n t") auto
    then show thesis by (rule that(1))
  next
    assume "length (UnknownBars n t) = 2"
    then obtain a b where "UnknownBars n t = [a, b]"
      by (cases "UnknownBars n t"; cases "tl (UnknownBars n t)") auto
    then show thesis by (rule that(2))
  qed
qed

lemma frozen_refl [simp]: "frozen h h"
  by (simp add: frozen_def)

lemma frozen_trans: "frozen h h' \<Longrightarrow> frozen h' h'' \<Longrightarrow> frozen h h''"
  by (auto simp add: frozen_def)

lemma resolve_node_summary:
  assumes "resolve_node g n p t = (r, p', t')"
  shows "frozen (heap t) (heap t')"
    and "\<And>k. k \<notin> set (bars n) \<Longrightarrow> heap t' k = heap t k"
    and "(r = None \<and> p' = p \<and> t' = t \<and> \<not> NodeIsViable n t)
         \<or> (r \<noteq> None \<and> p' = p \<and> heap t' = heap t \<and> NodeIsViable n t)
         \<or> (r = None \<and> p' = True \<and> NodeIsViable n t
              \<and> (\<exists>k \<in> set (bars n). \<not> is_computed (heap t k) \<and> is_computed (heap t' k)))"
proof -
  have "frozen (heap t) (heap t') \<and> (\<forall>k. k \<notin> set (bars n) \<longrightarrow> heap t' k = heap t k)
    \<and> ((r = None \<and> p' = p \<and> t' = t \<and> \<not> NodeIsViable n t)
         \<or> (r \<noteq> None \<and> p' = p \<and> heap t' = heap t \<and> NodeIsViable n t)
         \<or> (r = None \<and> p' = True \<and> NodeIsViable n t
              \<and> (\<exists>k \<in> set (bars n). \<not> is_computed (heap t k) \<and> is_computed (heap t' k))))"
  proof (cases "NodeIsViable n t")
    case False
    then show ?thesis using assms by (simp add: resolve_node_not_viable)
  next
    case True
    then show ?thesis
    proof (cases rule: viable_shapes)
      case (1 a)
      then have m: "a \<in> set (bars n)" "\<not> is_computed (heap t a)"
        using UnknownBars_members [of a n t] by simp_all
      from resolve_node_one [OF 1, of g p] assms m True show ?thesis
        by (auto simp add: frozen_def)
    next
      case (2 a b)
      then have m: "a \<in> set (bars n)" "\<not> is_computed (heap t a)"
          "b \<in> set (bars n)" "\<not> is_computed (heap t b)"
        using UnknownBars_members [of a n t] UnknownBars_members [of b n t] by simp_all
      show ?thesis
      proof (cases "\<bar>SineVectors g (BarNodeToVector g n a) (BarNodeToVector g n b)\<bar> < 1 / 10 ^ 9")
        case True
        from resolve_node_two_small [OF 2 True, of p] assms \<open>NodeIsViable n t\<close> show ?thesis
          by auto
      next
        case False
        from resolve_node_two_large [OF 2 False, of p] assms m \<open>NodeIsViable n t\<close> show ?thesis
          by (auto simp add: frozen_def)
      qed
    qed
  qed
  then show "frozen (heap t) (heap t')"
    and "\<And>k. k \<notin> set (bars n) \<Longrightarrow> heap t' k = heap t k"
    and "(r = None \<and> p' = p \<and> t' = t \<and> \<not> NodeIsViable n t)
         \<or> (r \<noteq> None \<and> p' = p \<and> heap t' = heap t \<and> NodeIsViable n t)
         \<or> (r = None \<and> p' = True \<and> NodeIsViable n t
              \<and> (\<exists>k \<in> set (bars n). \<not> is_computed (heap t k) \<and> is_computed (heap t' k)))"
    by blast+
qed

lemma scan_nodes_not_viable:
  "(\<forall>n \<in> set ns. \<not> NodeIsViable n t) \<Longrightarrow> scan_nodes g ns p t = (None, p, t)"
  by (induction ns) (simp_all add: resolve_node_not_viable)

lemma incident_Cons: "incident (n # ns) = set (bars n) \<union> incident ns"
  by (simp add: incident_def)

lemma scan_nodes_summary:
  assumes "scan_nodes g ns p t = (r, p', t')"
  shows "frozen (heap t) (heap t')
    \<and> (\<forall>k. k \<notin> incident ns \<longrightarrow> heap t' k = heap t k)
    \<and> (p \<longrightarrow> p')
    \<and> (p' \<longrightarrow> p \<or> (\<exists>k \<in> incident ns. \<not> is_computed (heap t k) \<and> is_computed (heap t' k)))
    \<and> (\<not> p' \<and> r = None \<longrightarrow> t' = t \<and> (\<forall>n \<in> set ns. \<not> NodeIsViable n t))
    \<and> (\<forall>e. r = Some e \<longrightarrow> (\<exists>n \<in> set ns. e = GeometryError (idx n)))"
  using assms
proof (induction ns arbitrary: p t)
  case Nil
  then show ?case by (simp add: incident_def)
next
  case (Cons n ns)
  obtain r1 p1 t1 where rn: "resolve_node g n p t = (r1, p1, t1)"
    by (cases "resolve_node g n p t") auto
  note s = resolve_node_summary [OF rn]
  show ?case
  proof (cases r1)
    case (Some e)
    with rn Cons.prems have eq: "r = Some e" "p' = p1" "t' = t1" by simp_all
    from s(3) Some have v: "p1 = p" "heap t1 = heap t" "NodeIsViable n t" by auto
    have "e = GeometryError (idx n)"
    proof -
      from v(3) show ?thesis
      proof (cases rule: viable_shapes)
        case (1 a)
        from resolve_node_one [OF 1, of g p] rn Some show ?thesis by auto
      next
        case (2 a b)
        show ?thesis
        proof (cases "\<bar>SineVectors g (BarNodeToVector g n a) (BarNodeToVector g n b)\<bar> < 1 / 10 ^ 9")
          case True
          from resolve_node_two_small [OF 2 True, of p] rn Some show ?thesis by simp
        next
          case False
          from resolve_node_two_large [OF 2 False, of p] rn Some show ?thesis by auto
        qed
      qed
    qed
    with eq v show ?thesis by simp
  next
    case None
    with rn Cons.prems have rest: "scan_nodes g ns p1 t1 = (r, p', t')" by simp
    note ih = Cons.IH [OF rest]
    have f: "frozen (heap t) (heap t')"
      using s(1) ih frozen_trans by blast
    have out: "\<forall>k. k \<notin> incident (n # ns) \<longrightarrow> heap t' k = heap t k"
      using s(2) ih by (simp add: incident_Cons)
    have mono: "p \<longrightarrow> p'"
      using s(3) ih None by auto
    have prog: "p' \<longrightarrow> p \<or> (\<exists>k \<in> incident (n # ns). \<not> is_computed (heap t k) \<and> is_computed (heap t' k))"
    proof
      assume p': p'
      with ih have "p1 \<or> (\<exists>k \<in> incident ns. \<not> is_computed (heap t1 k) \<and> is_computed (heap t' k))"
        by simp
      then show "p \<or> (\<exists>k \<in> incident (n # ns). \<not> is_computed (heap t k) \<and> is_computed (heap t' k))"
      proof
        assume p1
        with s(3) None consider "p" | k where "k \<in> set (bars n)" "\<not> is_computed (heap t k)"
            "is_computed (heap t1 k)"
          by auto
        then show ?thesis
        proof cases
          case 1
          then show ?thesis by simp
        next
          case 2
          from ih 2(3) have "heap t' k = heap t1 k" by (simp add: frozen_def)
          with 2 show ?thesis by (auto simp add: incident_Cons)
        qed
      next
        assume "\<exists>k \<in> incident ns. \<not> is_computed (heap t1 k) \<and> is_computed (heap t' k)"
        then obtain k where k: "k \<in> incident ns" "\<not> is_computed (heap t1 k)" "is_computed (heap t' k)"
          by blast
        from s(1) k(2) have "\<not> is_computed (heap t k)" by (auto simp add: frozen_def)
        with k show ?thesis by (auto simp add: incident_Cons)
      qed
    qed
    have still: "\<not> p' \<and> r = None \<longrightarrow> t' = t \<and> (\<forall>m \<in> set (n # ns). \<not> NodeIsViable m t)"
    proof
      assume a: "\<not> p' \<and> r = None"
      with ih have 1: "t' = t1" "\<forall>m \<in> set ns. \<not> NodeIsViable m t1" "\<not> p1" by auto
      with s(3) None have "t1 = t" "\<not> NodeIsViable n t" by auto
      with 1 show "t' = t \<and> (\<forall>m \<in> set (n # ns). \<not> NodeIsViable m t)" by simp
    qed
    have err: "\<forall>e. r = Some e \<longrightarrow> (\<exists>m \<in> set (n # ns). e = GeometryError (idx m))"
      using ih by auto
    from f out mono prog still err show ?thesis by blast
  qed
qed

lemma finite_incident [simp]: "finite (incident ns)"
  by (simp add: incident_def)

lemma finite_unresolved [simp]: "finite (unresolved ns h)"
  by (simp add: unresolved_def)

lemma unresolved_frozen: "frozen h h' \<Longrightarrow> unresolved ns h' \<subseteq> unresolved ns h"
  by (auto simp add: unresolved_def frozen_def)

lemma unresolved_progress:
  assumes "frozen h h'" and "k \<in> incident ns" and "\<not> is_computed (h k)" and "is_computed (h' k)"
  shows "card (unresolved ns h') < card (unresolved ns h)"
proof -
  have "unresolved ns h' \<subset> unresolved ns h"
    using assms unresolved_frozen [OF assms(1), of ns] by (auto simp add: unresolved_def)
  then show ?thesis by (simp add: psubset_card_mono)
qed

lemma DoIhaveAnUnknownMember_iff:
  "DoIhaveAnUnknownMember ns t \<longleftrightarrow> unresolved ns (heap t) \<noteq> {}"
proof (induction ns)
  case Nil
  then show ?case by (simp add: unresolved_def incident_def)
next
  case (Cons n ns)
  have "length (UnknownBars n t) > 0 \<longleftrightarrow> (\<exists>k \<in> set (bars n). \<not> is_computed (heap t k))"
    by (simp add: UnknownBars_filter filter_empty_conv)
  with Cons show ?case
    by (auto simp add: unresolved_def incident_Cons Let_def)
qed

lemma driver_summaryI:
  assumes "frozen (heap t) (heap t')"
    and "\<forall>k. k \<notin> incident ns \<longrightarrow> heap t' k = heap t k"
    and "c \<le> c'"
    and "out = Converged \<longrightarrow> unresolved ns (heap t') = {}"
    and "out = SysExit StuckError \<longrightarrow>
              unresolved ns (heap t') \<noteq> {} \<and> (\<forall>n \<in> set ns. \<not> NodeIsViable n t')"
    and "\<forall>e. out = SysExit e \<longrightarrow> e = StuckError \<or> (\<exists>n \<in> set ns. e = GeometryError (idx n))"
    and "out = TooManyIterations \<longrightarrow>
              length bs + 5 < c'
              \<and> (\<exists>t0. unresolved ns (heap t0) \<noteq> {} \<and> scan_nodes g ns False t0 = (None, True, t'))"
    and "c + card (unresolved ns (heap t)) \<le> length bs \<longrightarrow>
              out \<noteq> TooManyIterations \<and> c' + card (unresolved ns (heap t')) \<le> length bs"
  shows "driver_summary g ns bs c t (out, c', t')"
  unfolding driver_summary_def using assms by simp

lemma driver_summaryD:
  assumes "driver_summary g ns bs c t (out, c', t')"
  shows "frozen (heap t) (heap t')"
    and "\<forall>k. k \<notin> incident ns \<longrightarrow> heap t' k = heap t k"
    and "c \<le> c'"
    and "out = Converged \<longrightarrow> unresolved ns (heap t') = {}"
    and "out = SysExit StuckError \<longrightarrow>
              unresolved ns (heap t') \<noteq> {} \<and> (\<forall>n \<in> set ns. \<not> NodeIsViable n t')"
    and "\<forall>e. out = SysExit e \<longrightarrow> e = StuckError \<or> (\<exists>n \<in> set ns. e = GeometryError (idx n))"
    and "out = TooManyIterations \<longrightarrow>
              length bs + 5 < c'
              \<and> (\<exists>t0. unresolved ns (heap t0) \<noteq> {} \<and> scan_nodes g ns False t0 = (None, True, t'))"
    and "c + card (unresolved ns (heap t)) \<le> length bs \<longrightarrow>
              out \<noteq> TooManyIterations \<and> c' + card (unresolved ns (heap t')) \<le> length bs"
  using assms unfolding driver_summary_def by simp_all

lemma iterate_while_summary: "driver_summary g ns bs c t (iterate_while g ns bs c t)"
proof (induction g ns bs c t rule: iterate_while.induct)
  case (1 g ns bs c t)
  show ?case
  proof (cases "DoIhaveAnUnknownMember ns t")
    case False
    then have eq: "iterate_while g ns bs c t = (Converged, c, t)"
      by (subst iterate_while.simps) simp
    from False have "unresolved ns (heap t) = {}"
      by (simp add: DoIhaveAnUnknownMember_iff)
    then show ?thesis unfolding eq by (intro driver_summaryI) simp_all
  next
    case True
    then have u: "unresolved ns (heap t) \<noteq> {}" by (simp add: DoIhaveAnUnknownMember_iff)
    obtain r p t1 where sc: "scan_nodes g ns False t = (r, p, t1)"
      by (cases "scan_nodes g ns False t") auto
    note s = scan_nodes_summary [OF sc]
    from s have fr: "frozen (heap t) (heap t1)" by simp
    from s have outside: "\<forall>k. k \<notin> incident ns \<longrightarrow> heap t1 k = heap t k" by simp
    have le: "card (unresolved ns (heap t1)) \<le> card (unresolved ns (heap t))"
      using unresolved_frozen [OF fr, of ns] by (simp add: card_mono)
    show ?thesis
    proof (cases r)
      case (Some e)
      with True sc have eq: "iterate_while g ns bs c t = (SysExit e, c, t1)"
        by (subst iterate_while.simps) simp
      from s Some have e: "\<exists>n \<in> set ns. e = GeometryError (idx n)" by simp
      then have ne: "e \<noteq> StuckError" by auto
      show ?thesis unfolding eq
        using fr outside le e ne by (intro driver_summaryI) simp_all
    next
      case None
      show ?thesis
      proof (cases p)
        case False
        with True sc None have eq: "iterate_while g ns bs c t = (SysExit StuckError, c, t1)"
          by (subst iterate_while.simps) simp
        from s None False have same: "t1 = t" and nv: "\<forall>n \<in> set ns. \<not> NodeIsViable n t"
          by simp_all
        show ?thesis unfolding eq same
          using u nv by (intro driver_summaryI) simp_all
      next
        case p: True
        from s p obtain k where k: "k \<in> incident ns" "\<not> is_computed (heap t k)"
            "is_computed (heap t1 k)"
          by auto
        have less: "card (unresolved ns (heap t1)) < card (unresolved ns (heap t))"
          using unresolved_progress [OF fr k] .
        show ?thesis
        proof (cases "length bs + 5 < c + 1")
          case True
          with \<open>DoIhaveAnUnknownMember ns t\<close> sc None p
          have eq: "iterate_while g ns bs c t = (TooManyIterations, c + 1, t1)"
            by (subst iterate_while.simps) simp
          have ex: "\<exists>t0. unresolved ns (heap t0) \<noteq> {} \<and> scan_nodes g ns False t0 = (None, True, t1)"
            using u sc None p by (intro exI [of _ t]) simp
          have nb: "\<not> c + card (unresolved ns (heap t)) \<le> length bs"
            using True by simp
          show ?thesis unfolding eq
            using fr outside True ex nb by (intro driver_summaryI) simp_all
        next
          case False
          with \<open>DoIhaveAnUnknownMember ns t\<close> sc None p
          have eq: "iterate_while g ns bs c t = iterate_while g ns bs (c + 1) t1"
            by (subst iterate_while.simps) simp
          have ih: "driver_summary g ns bs (c + 1) t1 (iterate_while g ns bs (c + 1) t1)"
            using "1.IH" [of r "(p, t1)" p t1] \<open>DoIhaveAnUnknownMember ns t\<close> sc None p False
            by simp
          obtain out c' t' where res: "iterate_while g ns bs (c + 1) t1 = (out, c', t')"
            by (cases "iterate_while g ns bs (c + 1) t1") auto
          note d = driver_summaryD [OF ih [unfolded res]]
          have 1: "frozen (heap t) (heap t')" using fr d(1) by (rule frozen_trans)
          have 2: "\<forall>k. k \<notin> incident ns \<longrightarrow> heap t' k = heap t k"
            using outside d(2) by simp
          have 3: "c \<le> c'" using d(3) by simp
          have 8: "c + card (unresolved ns (heap t)) \<le> length bs \<longrightarrow>
              out \<noteq> TooManyIterations \<and> c' + card (unresolved ns (heap t')) \<le> length bs"
          proof
            assume "c + card (unresolved ns (heap t)) \<le> length bs"
            with less have "c + 1 + card (unresolved ns (heap t1)) \<le> length bs" by simp
            with d(8) show "out \<noteq> TooManyIterations \<and> c' + card (unresolved ns (heap t')) \<le> length bs"
              by blast
          qed
          show ?thesis unfolding eq res
            using 1 2 3 d(4) d(5) d(6) d(7) 8 by (rule driver_summaryI)
        qed
      qed
    qed
  qed
qed

section \<open>Stalled, blind and bounded exits of the driver\<close>

lemma iterate_while_stuck:
  assumes "DoIhaveAnUnknownMember ns t" and "\<forall>n \<in> set ns. \<not> NodeIsViable n t"
  shows "iterate_while g ns bs c t = (SysExit StuckError, c, t)"
  using assms by (subst iterate_while.simps) (simp add: scan_nodes_not_viable)

text \<open>
  Claim C6.  At any pass of the driver (any value of the counter): when some incident
  bar is unresolved and no node is viable, the driver stops with the stalled error and
  returns the truss as the pass found it.  Conversely, whenever the driver stops with
  the stalled error, its final truss has an unresolved incident bar and no viable node,
  and the pass over it makes no progress and changes nothing.
\<close>

theorem stalled_detection:
  "(DoIhaveAnUnknownMember ns t \<and> (\<forall>n \<in> set ns. \<not> NodeIsViable n t)
      \<longrightarrow> iterate_while g ns bs c t = (SysExit StuckError, c, t))
   \<and> (fst (iterate_while g ns bs c t) = SysExit StuckError
      \<longrightarrow> DoIhaveAnUnknownMember ns (snd (snd (iterate_while g ns bs c t)))
          \<and> (\<forall>n \<in> set ns. \<not> NodeIsViable n (snd (snd (iterate_while g ns bs c t))))
          \<and> scan_nodes g ns False (snd (snd (iterate_while g ns bs c t)))
               = (None, False, snd (snd (iterate_while g ns bs c t))))"
proof -
  obtain out c' t' where res: "iterate_while g ns bs c t = (out, c', t')"
    by (cases "iterate_while g ns bs c t") auto
  note d = driver_summaryD [OF iterate_while_summary [of g ns bs c t, unfolded res]]
  have "out = SysExit StuckError \<longrightarrow>
          DoIhaveAnUnknownMember ns t' \<and> (\<forall>n \<in> set ns. \<not> NodeIsViable n t')
          \<and> scan_nodes g ns False t' = (None, False, t')"
    using d(5) by (simp add: DoIhaveAnUnknownMember_iff scan_nodes_not_viable)
  then show ?thesis
    using iterate_while_stuck [of ns t g bs c] by (simp add: res)
qed

lemma crowded_joint_fields [simp]: "bars crowded_joint = [0, 1, 2]"
  by (simp add: crowded_joint_def)

theorem stalled_detection_witness:
  "DoIhaveAnUnknownMember [crowded_joint] fresh_truss
   \<and> \<not> NodeIsViable crowded_joint fresh_truss
   \<and> IterateUsingMethodOfJoints triangle_geometry [crowded_joint] [0, 1, 2] fresh_truss
        = (SysExit StuckError, 0, fresh_truss)"
proof -
  have u: "UnknownBars crowded_joint fresh_truss = [0, 1, 2]"
    by (simp add: UnknownBars_filter)
  have 1: "DoIhaveAnUnknownMember [crowded_joint] fresh_truss" by (simp add: u)
  have 2: "\<not> NodeIsViable crowded_joint fresh_truss" by (simp add: NodeIsViable_iff u)
  from 1 2 stalled_detection [of "[crowded_joint]" fresh_truss triangle_geometry "[0, 1, 2]" 0]
  show ?thesis by (simp add: IterateUsingMethodOfJoints_def)
qed

text \<open>
  Claim C10, as amended.  The driver sees unresolved bars only through the incidence
  lists of its nodes: when every incident bar is computed (in particular for an empty
  node list) it returns at once, converged, after zero passes, with the truss
  untouched, whatever the list \<open>bs\<close> holds; and in every run a bar that is incident
  to no node is left exactly as it was.
\<close>

theorem bars_outside_the_nodes:
  "((\<forall>k \<in> incident ns. is_computed (heap t k))
      \<longrightarrow> IterateUsingMethodOfJoints g ns bs t = (Converged, 0, t))
   \<and> IterateUsingMethodOfJoints g [] bs t = (Converged, 0, t)
   \<and> (\<forall>k. k \<notin> incident ns
        \<longrightarrow> heap (snd (snd (IterateUsingMethodOfJoints g ns bs t))) k = heap t k)"
proof -
  have a: "IterateUsingMethodOfJoints g ns bs t = (Converged, 0, t)"
    if "\<forall>k \<in> incident ns. is_computed (heap t k)"
  proof -
    from that have "\<not> DoIhaveAnUnknownMember ns t"
      by (simp add: DoIhaveAnUnknownMember_iff unresolved_def)
    then show ?thesis
      unfolding IterateUsingMethodOfJoints_def by (subst iterate_while.simps) simp
  qed
  have b: "IterateUsingMethodOfJoints g [] bs t = (Converged, 0, t)"
    unfolding IterateUsingMethodOfJoints_def by (subst iterate_while.simps) simp
  obtain out c' t' where res: "iterate_while g ns bs 0 t = (out, c', t')"
    by (cases "iterate_while g ns bs 0 t") auto
  note d = driver_summaryD [OF iterate_while_summary [of g ns bs 0 t, unfolded res]]
  have c: "\<forall>k. k \<notin> incident ns
        \<longrightarrow> heap (snd (snd (IterateUsingMethodOfJoints g ns bs t))) k = heap t k"
    using d(2) by (simp add: IterateUsingMethodOfJoints_def res)
  from a b c show ?thesis by blast
qed

theorem bars_outside_the_nodes_witness:
  "IterateUsingMethodOfJoints triangle_geometry [] [0] fresh_truss = (Converged, 0, fresh_truss)
   \<and> \<not> is_computed (heap fresh_truss 0)"
  using bars_outside_the_nodes [of "[]" fresh_truss triangle_geometry "[0]"] by simp

lemma lone_joint_fields [simp]: "bars lone_joint = [0]"
  by (simp add: lone_joint_def)

text \<open>
  Claim C10 as stated fails: the bar list \<open>[0, 1]\<close> contains bar 1, incident to no
  node, yet the loop condition holds at entry because bar 0 is unresolved, and the
  driver does not return at once with the truss unmodified.
\<close>

theorem returns_at_once_counterexample:
  "1 \<notin> incident [lone_joint]
   \<and> IterateUsingMethodOfJoints triangle_geometry [lone_joint] [0, 1] fresh_truss
        \<noteq> (Converged, 0, fresh_truss)"
proof -
  have "IterateUsingMethodOfJoints triangle_geometry [lone_joint] [0, 1] fresh_truss
        \<noteq> (Converged, 0, fresh_truss)"
  proof
    assume eq: "IterateUsingMethodOfJoints triangle_geometry [lone_joint] [0, 1] fresh_truss
        = (Converged, 0, fresh_truss)"
    note d = driver_summaryD [OF iterate_while_summary
        [of triangle_geometry "[lone_joint]" "[0, 1]" 0 fresh_truss,
         unfolded eq [unfolded IterateUsingMethodOfJoints_def]]]
    from d(4) have "unresolved [lone_joint] (heap fresh_truss) = {}" by simp
    moreover have "0 \<in> unresolved [lone_joint] (heap fresh_truss)"
      by (simp add: unresolved_def incident_def)
    ultimately show False by simp
  qed
  moreover have "1 \<notin> incident [lone_joint]" by (simp add: incident_def)
  ultimately show ?thesis by simp
qed



lemmas run_defs = IterateUsingMethodOfJoints_def iterate_while.simps resolve_node_def
  NodeIsViable_iff UnknownBars_filter SumOfForcesInLocalX_def SumOfForcesInLocalY_def Let_def
  write_axial_load_def write_is_computed_def SetAxialLoad_def note_solver_call_def



section \<open>The order of resolution within a pass\<close>

lemma scan_nodes_append:
  "scan_nodes g (ms @ ns) p t =
     (case scan_nodes g ms p t of
        (Some e, p1, t1) \<Rightarrow> (Some e, p1, t1)
      | (None, p1, t1) \<Rightarrow> scan_nodes g ns p1 t1)"
proof (induction ms arbitrary: p t)
  case Nil
  then show ?case by simp
next
  case (Cons m ms)
  obtain r p1 t1 where rn: "resolve_node g m p t = (r, p1, t1)"
    by (cases "resolve_node g m p t") auto
  show ?case
  proof (cases r)
    case None
    with rn Cons show ?thesis by simp
  next
    case (Some e)
    with rn show ?thesis by simp
  qed
qed

lemma SumOfForcesInLocalX_heap_only:
  "heap t = heap u \<Longrightarrow>
     heap (snd (SumOfForcesInLocalX g n x t)) = heap (snd (SumOfForcesInLocalX g n x u))"
  by (simp add: heap_SumOfForcesInLocalX)

lemma live_scan:
  "UnknownBars (comb_joint 4) fresh_truss = [4, 5, 10]"
  "\<not> NodeIsViable (comb_joint 4) fresh_truss"
  "\<exists>t'. scan_nodes comb_geometry [comb_joint 5, comb_joint 4] False fresh_truss = (None, True, t')
     \<and> heap t' 4 = \<lparr>is_computed = True, axial_load = 0\<rparr>
     \<and> heap t' 5 = \<lparr>is_computed = True, axial_load = 0\<rparr>
     \<and> heap t' 10 = \<lparr>is_computed = True, axial_load = 0\<rparr>"
  by (simp_all add: run_defs fresh_truss_def comb_ends_def)

lemma triangle_first_joint:
  "UnknownBars joint_0 fresh_truss = [0, 1]"
  "\<exists>t'. resolve_node triangle_geometry joint_0 False fresh_truss = (None, True, t')
     \<and> heap t' 0 = \<lparr>is_computed = True, axial_load = 8\<rparr>
     \<and> heap t' 1 = \<lparr>is_computed = True, axial_load = 6\<rparr>"
  by (simp_all add: run_defs fresh_truss_def)

lemma resolve_node_clears:
  assumes v: "NodeIsViable n t" and ok: "fst (resolve_node g n p t) = None"
  shows "UnknownBars n (snd (snd (resolve_node g n p t))) = []
         \<and> fst (snd (resolve_node g n p t)) = True"
  using v
proof (cases rule: viable_shapes)
  case (1 a)
  from resolve_node_one [OF 1, of g p] obtain t' where
    t': "resolve_node g n p t = (None, True, t')"
      "heap t' = (heap t)(a := \<lparr>is_computed = True, axial_load = - local_x_sum g n a (heap t)\<rparr>)"
    by blast
  from 1 have "set (filter (\<lambda>x. \<not> is_computed (heap t x)) (bars n)) = {a}"
    by (simp add: UnknownBars_filter)
  then have "\<forall>x \<in> set (bars n). \<not> is_computed (heap t x) \<longrightarrow> x = a"
    by auto
  then have "UnknownBars n t' = []"
    by (auto simp add: UnknownBars_filter t'(2) filter_empty_conv)
  with t'(1) show ?thesis by simp
next
  case (2 a b)
  show ?thesis
  proof (cases "\<bar>SineVectors g (BarNodeToVector g n a) (BarNodeToVector g n b)\<bar> < 1 / 10 ^ 9")
    case True
    from resolve_node_two_small [OF 2 True, of p] ok show ?thesis by simp
  next
    case False
    from resolve_node_two_large [OF 2 False, of p] obtain t' where
      t': "resolve_node g n p t = (None, True, t')"
        "heap t' = (heap t)
           (b := \<lparr>is_computed = True, axial_load = two_unknown_load g n a b (heap t)\<rparr>,
            a := \<lparr>is_computed = True,
                   axial_load = - local_x_sum g n a ((heap t)
                     (b := \<lparr>is_computed = True,
                            axial_load = two_unknown_load g n a b (heap t)\<rparr>))\<rparr>)"
      by blast
    from 2 have "set (filter (\<lambda>x. \<not> is_computed (heap t x)) (bars n)) = {a, b}"
      by (simp add: UnknownBars_filter)
    then have "\<forall>x \<in> set (bars n). \<not> is_computed (heap t x) \<longrightarrow> x = a \<or> x = b"
      by auto
    then have "UnknownBars n t' = []"
      by (auto simp add: UnknownBars_filter t'(2) filter_empty_conv)
    with t'(1) show ?thesis by simp
  qed
qed

lemma iterate_while_pass:
  "iterate_while g (ms @ n # ns) bs c t =
     (if DoIhaveAnUnknownMember (ms @ n # ns) t then
        (case scan_nodes g ms False t of
           (Some e, p1, t1) \<Rightarrow> (SysExit e, c, t1)
         | (None, p1, t1) \<Rightarrow>
             (case resolve_node g n p1 t1 of
                (Some e, p2, t2) \<Rightarrow> (SysExit e, c, t2)
              | (None, p2, t2) \<Rightarrow>
                  (case scan_nodes g ns p2 t2 of
                     (Some e, p3, t3) \<Rightarrow> (SysExit e, c, t3)
                   | (None, p3, t3) \<Rightarrow>
                       if \<not> p3 then (SysExit StuckError, c, t3)
                       else if length bs + 5 < c + 1 then (TooManyIterations, c + 1, t3)
                       else iterate_while g (ms @ n # ns) bs (c + 1) t3)))
      else (Converged, c, t))"
  by (subst iterate_while.simps)
     (simp add: scan_nodes_append split: prod.splits option.splits)

lemma comb_order:
  "\<exists>t'. IterateUsingMethodOfJoints comb_geometry [comb_joint 5, comb_joint 4] [4, 5, 10]
           fresh_truss = (Converged, 1, t')
        \<and> UnknownBars (comb_joint 4) t' = []"
  "\<exists>t'. IterateUsingMethodOfJoints comb_geometry (rev [comb_joint 5, comb_joint 4]) [4, 5, 10]
           fresh_truss = (Converged, 2, t')"
  by (simp_all add: run_defs fresh_truss_def comb_ends_def)

text \<open>
  Claim C4.  What the driver does to each node in every pass, in terms of the two
  solver forms.  A node with exactly two unknown bars \<open>[a, b]\<close> gets the two-unknown
  form with reference \<open>a\<close> and target \<open>b\<close>; if that form fails the scan stops with
  its error and no bar is changed; otherwise the single-unknown form is applied to
  \<open>a\<close> on the truss the first form produced, and the driver's own writes after each
  solver change no bar.  A node with exactly one unknown bar gets the single-unknown
  form only.  In both cases \<^verbatim>\<open>progress_made\<close> becomes true and the node has no
  unknown bar left.  A node that is not viable is skipped.  Every pass of the driver,
  whatever the counter, starts with \<^verbatim>\<open>progress_made\<close> false and visits the nodes
  in list order: a node \<open>n\<close> that stands after the nodes \<open>ms\<close> is handled on the
  truss those nodes left, then the nodes after it are visited, and an error at any
  node ends the driver with it.  So a node that is not viable when the pass starts can
  be resolved later in the same pass: on two joints of the comb, listed as joint 5
  then joint 4, the driver converges after one pass with joint 4 resolved, although
  joint 4 was not viable at the start; listed in the reverse order the same run takes
  two passes.
\<close>

theorem node_resolution_order:
  "(UnknownBars n t = [a, b] \<longrightarrow>
      (case SumOfForcesInLocalY g n [a, b] t of
         (Inl e, t1) \<Rightarrow>
           fst (resolve_node g n p t) = Some e
           \<and> fst (snd (resolve_node g n p t)) = p
           \<and> heap (snd (snd (resolve_node g n p t))) = heap t
       | (Inr force_2, t1) \<Rightarrow>
           fst (resolve_node g n p t) = None
           \<and> fst (snd (resolve_node g n p t)) = True
           \<and> heap (snd (snd (resolve_node g n p t)))
               = heap (snd (SumOfForcesInLocalX g n a t1))))
   \<and> (UnknownBars n t = [a] \<longrightarrow>
        fst (resolve_node g n p t) = None
        \<and> fst (snd (resolve_node g n p t)) = True
        \<and> heap (snd (snd (resolve_node g n p t))) = heap (snd (SumOfForcesInLocalX g n a t)))
   \<and> (\<not> NodeIsViable n t \<longrightarrow> resolve_node g n p t = (None, p, t))
   \<and> scan_nodes g (ms @ n # ns) p t =
        (case scan_nodes g ms p t of
           (Some e, p1, t1) \<Rightarrow> (Some e, p1, t1)
         | (None, p1, t1) \<Rightarrow>
             (case resolve_node g n p1 t1 of
                (Some e, p2, t2) \<Rightarrow> (Some e, p2, t2)
              | (None, p2, t2) \<Rightarrow> scan_nodes g ns p2 t2))
   \<and> (\<exists>g' ms' n' t'. \<not> NodeIsViable n' t' \<and> UnknownBars n' t' \<noteq> []
        \<and> fst (scan_nodes g' (ms' @ [n']) False t') = None
        \<and> UnknownBars n' (snd (snd (scan_nodes g' (ms' @ [n']) False t'))) = [])
   \<and> (NodeIsViable n t \<and> fst (resolve_node g n p t) = None \<longrightarrow>
        UnknownBars n (snd (snd (resolve_node g n p t))) = []
        \<and> fst (snd (resolve_node g n p t)) = True)
   \<and> IterateUsingMethodOfJoints g (ms @ n # ns) bs t = iterate_while g (ms @ n # ns) bs 0 t
   \<and> iterate_while g (ms @ n # ns) bs c t =
       (if DoIhaveAnUnknownMember (ms @ n # ns) t then
          (case scan_nodes g ms False t of
             (Some e, p1, t1) \<Rightarrow> (SysExit e, c, t1)
           | (None, p1, t1) \<Rightarrow>
               (case resolve_node g n p1 t1 of
                  (Some e, p2, t2) \<Rightarrow> (SysExit e, c, t2)
                | (None, p2, t2) \<Rightarrow>
                    (case scan_nodes g ns p2 t2 of
                       (Some e, p3, t3) \<Rightarrow> (SysExit e, c, t3)
                     | (None, p3, t3) \<Rightarrow>
                         if \<not> p3 then (SysExit StuckError, c, t3)
                         else if length bs + 5 < c + 1 then (TooManyIterations, c + 1, t3)
                         else iterate_while g (ms @ n # ns) bs (c + 1) t3)))
        else (Converged, c, t))
   \<and> (\<exists>g' m' n' bs' t' t''. \<not> NodeIsViable n' t' \<and> UnknownBars n' t' \<noteq> []
        \<and> IterateUsingMethodOfJoints g' [m', n'] bs' t' = (Converged, 1, t'')
        \<and> UnknownBars n' t'' = []
        \<and> fst (snd (IterateUsingMethodOfJoints g' [n', m'] bs' t')) = 2)"
proof -
  have two: "case SumOfForcesInLocalY g n [a, b] t of
         (Inl e, t1) \<Rightarrow>
           fst (resolve_node g n p t) = Some e
           \<and> fst (snd (resolve_node g n p t)) = p
           \<and> heap (snd (snd (resolve_node g n p t))) = heap t
       | (Inr force_2, t1) \<Rightarrow>
           fst (resolve_node g n p t) = None
           \<and> fst (snd (resolve_node g n p t)) = True
           \<and> heap (snd (snd (resolve_node g n p t)))
               = heap (snd (SumOfForcesInLocalX g n a t1))"
    if u: "UnknownBars n t = [a, b]"
  proof (cases "\<bar>SineVectors g (BarNodeToVector g n a) (BarNodeToVector g n b)\<bar> < 1 / 10 ^ 9")
    case True
    then show ?thesis
      by (simp add: SumOfForcesInLocalY_small resolve_node_two_small [OF u True])
  next
    case False
    obtain r t1 where y: "SumOfForcesInLocalY g n [a, b] t = (r, t1)"
      by (cases "SumOfForcesInLocalY g n [a, b] t") simp
    have r: "r = Inr (two_unknown_load g n a b (heap t))"
      using SumOfForcesInLocalY_large(1) [OF False, of "[]" t] y
      by (simp add: two_unknown_load_def)
    have h1: "heap t1 = (heap t)
        (b := \<lparr>is_computed = True, axial_load = two_unknown_load g n a b (heap t)\<rparr>)"
      using SumOfForcesInLocalY_large(2) [OF False, of "[]" t] y
      by (simp add: two_unknown_load_def)
    from resolve_node_two_large [OF u False, of p] obtain t' where
      t': "resolve_node g n p t = (None, True, t')"
        "heap t' = (heap t)
           (b := \<lparr>is_computed = True, axial_load = two_unknown_load g n a b (heap t)\<rparr>,
            a := \<lparr>is_computed = True,
                   axial_load = - local_x_sum g n a ((heap t)
                     (b := \<lparr>is_computed = True,
                            axial_load = two_unknown_load g n a b (heap t)\<rparr>))\<rparr>)"
      by blast
    show ?thesis
      by (simp add: y r t' heap_SumOfForcesInLocalX h1)
  qed
  have one: "fst (resolve_node g n p t) = None
        \<and> fst (snd (resolve_node g n p t)) = True
        \<and> heap (snd (snd (resolve_node g n p t))) = heap (snd (SumOfForcesInLocalX g n a t))"
    if u: "UnknownBars n t = [a]"
  proof -
    from resolve_node_one [OF u, of g p] obtain t' where
      t': "resolve_node g n p t = (None, True, t')"
        "heap t' = (heap t)(a := \<lparr>is_computed = True, axial_load = - local_x_sum g n a (heap t)\<rparr>)"
      by blast
    show ?thesis by (simp add: t' heap_SumOfForcesInLocalX)
  qed
  have sc: "scan_nodes g (ms @ n # ns) p t =
        (case scan_nodes g ms p t of
           (Some e, p1, t1) \<Rightarrow> (Some e, p1, t1)
         | (None, p1, t1) \<Rightarrow>
             (case resolve_node g n p1 t1 of
                (Some e, p2, t2) \<Rightarrow> (Some e, p2, t2)
              | (None, p2, t2) \<Rightarrow> scan_nodes g ns p2 t2))"
    by (simp add: scan_nodes_append split: prod.splits option.splits)
  have live: "\<exists>g' ms' n' t'. \<not> NodeIsViable n' t' \<and> UnknownBars n' t' \<noteq> []
        \<and> fst (scan_nodes g' (ms' @ [n']) False t') = None
        \<and> UnknownBars n' (snd (snd (scan_nodes g' (ms' @ [n']) False t'))) = []"
  proof -
    from live_scan(3) obtain t' where
      t': "scan_nodes comb_geometry [comb_joint 5, comb_joint 4] False fresh_truss = (None, True, t')"
        "heap t' 4 = \<lparr>is_computed = True, axial_load = 0\<rparr>"
        "heap t' 5 = \<lparr>is_computed = True, axial_load = 0\<rparr>"
        "heap t' 10 = \<lparr>is_computed = True, axial_load = 0\<rparr>"
      by blast
    have "\<not> NodeIsViable (comb_joint 4) fresh_truss \<and> UnknownBars (comb_joint 4) fresh_truss \<noteq> []
        \<and> fst (scan_nodes comb_geometry ([comb_joint 5] @ [comb_joint 4]) False fresh_truss) = None
        \<and> UnknownBars (comb_joint 4)
             (snd (snd (scan_nodes comb_geometry ([comb_joint 5] @ [comb_joint 4]) False fresh_truss)))
            = []"
      using live_scan(1,2) t' by (simp add: UnknownBars_filter)
    then show ?thesis by blast
  qed
  have c1: "UnknownBars n t = [a, b] \<longrightarrow>
      (case SumOfForcesInLocalY g n [a, b] t of
         (Inl e, t1) \<Rightarrow>
           fst (resolve_node g n p t) = Some e
           \<and> fst (snd (resolve_node g n p t)) = p
           \<and> heap (snd (snd (resolve_node g n p t))) = heap t
       | (Inr force_2, t1) \<Rightarrow>
           fst (resolve_node g n p t) = None
           \<and> fst (snd (resolve_node g n p t)) = True
           \<and> heap (snd (snd (resolve_node g n p t)))
               = heap (snd (SumOfForcesInLocalX g n a t1)))"
    using two by blast
  have c2: "UnknownBars n t = [a] \<longrightarrow>
        fst (resolve_node g n p t) = None
        \<and> fst (snd (resolve_node g n p t)) = True
        \<and> heap (snd (snd (resolve_node g n p t))) = heap (snd (SumOfForcesInLocalX g n a t))"
    using one by blast
  have c3: "\<not> NodeIsViable n t \<longrightarrow> resolve_node g n p t = (None, p, t)"
    using resolve_node_not_viable [of n t g p] by blast
  have c4: "NodeIsViable n t \<and> fst (resolve_node g n p t) = None \<longrightarrow>
        UnknownBars n (snd (snd (resolve_node g n p t))) = []
        \<and> fst (snd (resolve_node g n p t)) = True"
    using resolve_node_clears [of n t g p] by blast
  have c5: "IterateUsingMethodOfJoints g (ms @ n # ns) bs t = iterate_while g (ms @ n # ns) bs 0 t"
    by (simp add: IterateUsingMethodOfJoints_def)
  have live2: "\<exists>g' m' n' bs' t' t''. \<not> NodeIsViable n' t' \<and> UnknownBars n' t' \<noteq> []
        \<and> IterateUsingMethodOfJoints g' [m', n'] bs' t' = (Converged, 1, t'')
        \<and> UnknownBars n' t'' = []
        \<and> fst (snd (IterateUsingMethodOfJoints g' [n', m'] bs' t')) = 2"
  proof -
    from comb_order(1) obtain t' where
      t': "IterateUsingMethodOfJoints comb_geometry [comb_joint 5, comb_joint 4] [4, 5, 10]
             fresh_truss = (Converged, 1, t')"
        "UnknownBars (comb_joint 4) t' = []"
      by blast
    from comb_order(2) have
      r: "fst (snd (IterateUsingMethodOfJoints comb_geometry [comb_joint 4, comb_joint 5]
            [4, 5, 10] fresh_truss)) = 2"
      by auto
    have "\<not> NodeIsViable (comb_joint 4) fresh_truss
        \<and> UnknownBars (comb_joint 4) fresh_truss \<noteq> []
        \<and> IterateUsingMethodOfJoints comb_geometry [comb_joint 5, comb_joint 4] [4, 5, 10]
             fresh_truss = (Converged, 1, t')
        \<and> UnknownBars (comb_joint 4) t' = []
        \<and> fst (snd (IterateUsingMethodOfJoints comb_geometry [comb_joint 4, comb_joint 5]
            [4, 5, 10] fresh_truss)) = 2"
      using live_scan(1,2) t' r by simp
    then show ?thesis by (intro exI)
  qed
  show ?thesis
    by (intro conjI) (rule c1 c2 c3 sc live c4 c5 iterate_while_pass live2)+
qed

theorem node_resolution_order_witness:
  "UnknownBars joint_0 fresh_truss = [0, 1]
   \<and> fst (resolve_node triangle_geometry joint_0 False fresh_truss) = None
   \<and> fst (snd (resolve_node triangle_geometry joint_0 False fresh_truss)) = True
   \<and> heap (snd (snd (resolve_node triangle_geometry joint_0 False fresh_truss)))
       = heap (snd (SumOfForcesInLocalX triangle_geometry joint_0 0
           (snd (SumOfForcesInLocalY triangle_geometry joint_0 [0, 1] fresh_truss))))
   \<and> UnknownBars joint_0 (snd (snd (resolve_node triangle_geometry joint_0 False fresh_truss)))
       = []
   \<and> UnknownBars lone_joint fresh_truss = [0]
   \<and> heap (snd (snd (resolve_node triangle_geometry lone_joint False fresh_truss)))
       = heap (snd (SumOfForcesInLocalX triangle_geometry lone_joint 0 fresh_truss))
   \<and> \<not> NodeIsViable crowded_joint fresh_truss
   \<and> resolve_node triangle_geometry crowded_joint False fresh_truss = (None, False, fresh_truss)
   \<and> \<not> NodeIsViable (comb_joint 4) fresh_truss
   \<and> fst (IterateUsingMethodOfJoints comb_geometry [comb_joint 5, comb_joint 4] [4, 5, 10]
        fresh_truss) = Converged
   \<and> fst (snd (IterateUsingMethodOfJoints comb_geometry [comb_joint 5, comb_joint 4] [4, 5, 10]
        fresh_truss)) = 1
   \<and> UnknownBars (comb_joint 4)
        (snd (snd (IterateUsingMethodOfJoints comb_geometry [comb_joint 5, comb_joint 4]
           [4, 5, 10] fresh_truss))) = []
   \<and> fst (snd (IterateUsingMethodOfJoints comb_geometry [comb_joint 4, comb_joint 5] [4, 5, 10]
        fresh_truss)) = 2"
proof -
  obtain r t1 where
    y: "SumOfForcesInLocalY triangle_geometry joint_0 [0, Suc 0] fresh_truss = (r, t1)"
    by (cases "SumOfForcesInLocalY triangle_geometry joint_0 [0, Suc 0] fresh_truss") simp
  have "\<not> \<bar>SineVectors triangle_geometry (BarNodeToVector triangle_geometry joint_0 0)
              (BarNodeToVector triangle_geometry joint_0 (Suc 0))\<bar> < 1 / 10 ^ 9"
    by simp
  from SumOfForcesInLocalY_large(1) [OF this, of "[]" fresh_truss] y
  obtain f where r: "r = Inr f" by simp
  have u0: "UnknownBars joint_0 fresh_truss = [0, 1]" by (simp add: UnknownBars_filter)
  have v0: "NodeIsViable joint_0 fresh_truss" by (simp add: NodeIsViable_iff UnknownBars_filter)
  have u1: "UnknownBars lone_joint fresh_truss = [0]" by (simp add: UnknownBars_filter)
  have u2: "\<not> NodeIsViable crowded_joint fresh_truss"
    by (simp add: NodeIsViable_iff UnknownBars_filter)
  from node_resolution_order [where n = joint_0 and t = fresh_truss and a = 0 and b = 1
      and g = triangle_geometry and p = False and ms = "[]" and ns = "[]" and bs = "[]"
      and c = 0] u0
  have a: "fst (resolve_node triangle_geometry joint_0 False fresh_truss) = None
   \<and> fst (snd (resolve_node triangle_geometry joint_0 False fresh_truss)) = True
   \<and> heap (snd (snd (resolve_node triangle_geometry joint_0 False fresh_truss)))
       = heap (snd (SumOfForcesInLocalX triangle_geometry joint_0 0
           (snd (SumOfForcesInLocalY triangle_geometry joint_0 [0, 1] fresh_truss))))"
    by (simp add: y r)
  from node_resolution_order [where n = joint_0 and t = fresh_truss and a = 0 and b = 1
      and g = triangle_geometry and p = False and ms = "[]" and ns = "[]" and bs = "[]"
      and c = 0] v0 a
  have a': "UnknownBars joint_0
      (snd (snd (resolve_node triangle_geometry joint_0 False fresh_truss))) = []"
    by blast
  from node_resolution_order [where n = lone_joint and t = fresh_truss and a = 0 and b = 0
      and g = triangle_geometry and p = False and ms = "[]" and ns = "[]" and bs = "[]"
      and c = 0] u1
  have b: "heap (snd (snd (resolve_node triangle_geometry lone_joint False fresh_truss)))
       = heap (snd (SumOfForcesInLocalX triangle_geometry lone_joint 0 fresh_truss))"
    by simp
  from node_resolution_order [where n = crowded_joint and t = fresh_truss and a = 0 and b = 0
      and g = triangle_geometry and p = False and ms = "[]" and ns = "[]" and bs = "[]"
      and c = 0] u2
  have c: "resolve_node triangle_geometry crowded_joint False fresh_truss = (None, False, fresh_truss)"
    by simp
  note fwd = node_resolution_order [where n = "comb_joint 4" and t = fresh_truss and a = 0
      and b = 0 and g = comb_geometry and p = False and ms = "[comb_joint 5]" and ns = "[]"
      and bs = "[4, 5, 10]" and c = 0]
  note fwd_driver = fwd [THEN conjunct2, THEN conjunct2, THEN conjunct2, THEN conjunct2,
      THEN conjunct2, THEN conjunct2, THEN conjunct1]
  note fwd_pass = fwd [THEN conjunct2, THEN conjunct2, THEN conjunct2, THEN conjunct2,
      THEN conjunct2, THEN conjunct2, THEN conjunct2, THEN conjunct1]
  have d: "\<exists>t'. IterateUsingMethodOfJoints comb_geometry ([comb_joint 5] @ comb_joint 4 # [])
             [4, 5, 10] fresh_truss = (Converged, 1, t')
          \<and> UnknownBars (comb_joint 4) t' = []"
    by (subst fwd_driver, subst fwd_pass)
       (simp add: run_defs fresh_truss_def comb_ends_def)
  note bwd = node_resolution_order [where n = "comb_joint 5" and t = fresh_truss and a = 0
      and b = 0 and g = comb_geometry and p = False and ms = "[comb_joint 4]" and ns = "[]"
      and bs = "[4, 5, 10]" and c = 0]
  note bwd_driver = bwd [THEN conjunct2, THEN conjunct2, THEN conjunct2, THEN conjunct2,
      THEN conjunct2, THEN conjunct2, THEN conjunct1]
  note bwd_pass = bwd [THEN conjunct2, THEN conjunct2, THEN conjunct2, THEN conjunct2,
      THEN conjunct2, THEN conjunct2, THEN conjunct2, THEN conjunct1]
  have e: "\<exists>t'. IterateUsingMethodOfJoints comb_geometry ([comb_joint 4] @ comb_joint 5 # [])
             [4, 5, 10] fresh_truss = (Converged, 2, t')"
    by (subst bwd_driver, subst bwd_pass)
       (simp add: run_defs fresh_truss_def comb_ends_def)
  from d obtain t' where
    d': "IterateUsingMethodOfJoints comb_geometry [comb_joint 5, comb_joint 4] [4, 5, 10]
           fresh_truss = (Converged, 1, t')"
      "UnknownBars (comb_joint 4) t' = []"
    by auto
  from e obtain t'' where
    e': "IterateUsingMethodOfJoints comb_geometry [comb_joint 4, comb_joint 5] [4, 5, 10]
           fresh_truss = (Converged, 2, t'')"
    by auto
  from u0 a a' u1 b u2 c live_scan(2) d' e' show ?thesis by simp
qed

section \<open>Flags and loads are written one way\<close>

lemma orderly_Nil [simp]: "orderly s []"
  by (simp add: orderly_def)

lemma orderly_append [simp]: "orderly s (xs @ ys) \<longleftrightarrow> orderly s xs \<and> orderly s ys"
  by (auto simp add: orderly_def)

lemma orderly_Cons:
  "orderly s (e # evs) \<longleftrightarrow>
     \<not> reverts_flag e \<and> (s \<longrightarrow> \<not> changes_set_load e \<and> \<not> solves_resolved e) \<and> orderly s evs"
  by (auto simp add: orderly_def)

lemmas event_tests = orderly_Cons reverts_flag_def changes_set_load_def solves_resolved_def

lemma resolve_node_trail:
  assumes "resolve_node g n p t = (r, p', t')"
  shows "\<exists>evs. trail t' = trail t @ evs \<and> orderly (distinct (bars n)) evs"
proof (cases "NodeIsViable n t")
  case False
  with assms show ?thesis by (simp add: resolve_node_not_viable)
next
  case True
  then show ?thesis
  proof (cases rule: viable_shapes)
    case (1 a)
    then have m: "\<not> is_computed (heap t a)"
      using UnknownBars_members [of a n t] by simp
    from assms True 1 m show ?thesis
      by (auto simp add: resolve_node_def Let_def SumOfForcesInLocalX_def event_tests)
  next
    case (2 a b)
    then have m: "\<not> is_computed (heap t a)" "\<not> is_computed (heap t b)"
      using UnknownBars_members [of a n t] UnknownBars_members [of b n t] by simp_all
    have d: "distinct (bars n) \<Longrightarrow> a \<noteq> b"
    proof -
      assume "distinct (bars n)"
      then have "distinct (UnknownBars n t)" by (simp add: UnknownBars_filter)
      with 2 show "a \<noteq> b" by simp
    qed
    show ?thesis
    proof (cases "\<bar>SineVectors g (BarNodeToVector g n a) (BarNodeToVector g n b)\<bar> < 1 / 10 ^ 9")
      case True
      from resolve_node_two_small [OF 2 True, of p] assms m show ?thesis
        by (auto simp add: event_tests)
    next
      case False
      from assms \<open>NodeIsViable n t\<close> 2 m False d show ?thesis
        by (auto simp add: resolve_node_def Let_def SumOfForcesInLocalX_def
            SumOfForcesInLocalY_def event_tests)
    qed
  qed
qed


lemma orderly_weaken: "orderly s evs \<Longrightarrow> (s' \<Longrightarrow> s) \<Longrightarrow> orderly s' evs"
  by (auto simp add: orderly_def)

lemma scan_nodes_trail:
  assumes "scan_nodes g ns p t = (r, p', t')"
  shows "\<exists>evs. trail t' = trail t @ evs \<and> orderly (\<forall>n \<in> set ns. distinct (bars n)) evs"
  using assms
proof (induction ns arbitrary: p t)
  case Nil
  then show ?case by simp
next
  case (Cons n ns)
  obtain r1 p1 t1 where rn: "resolve_node g n p t = (r1, p1, t1)"
    by (cases "resolve_node g n p t") auto
  from resolve_node_trail [OF rn] obtain evs1 where
    1: "trail t1 = trail t @ evs1" "orderly (distinct (bars n)) evs1"
    by blast
  have o1: "orderly (\<forall>m \<in> set (n # ns). distinct (bars m)) evs1"
    using 1(2) by (rule orderly_weaken) simp
  show ?case
  proof (cases r1)
    case (Some e)
    with rn Cons.prems have "t' = t1" by simp
    with 1(1) o1 show ?thesis by blast
  next
    case None
    with rn Cons.prems have "scan_nodes g ns p1 t1 = (r, p', t')" by simp
    from Cons.IH [OF this] obtain evs2 where
      2: "trail t' = trail t1 @ evs2" "orderly (\<forall>m \<in> set ns. distinct (bars m)) evs2"
      by blast
    have o2: "orderly (\<forall>m \<in> set (n # ns). distinct (bars m)) evs2"
      using 2(2) by (rule orderly_weaken) simp
    have "trail t' = trail t @ (evs1 @ evs2)" using 1(1) 2(1) by simp
    moreover have "orderly (\<forall>m \<in> set (n # ns). distinct (bars m)) (evs1 @ evs2)"
      using o1 o2 by simp
    ultimately show ?thesis by blast
  qed
qed

lemma iterate_while_trail:
  "\<exists>evs. trail (snd (snd (iterate_while g ns bs c t))) = trail t @ evs
         \<and> orderly (\<forall>n \<in> set ns. distinct (bars n)) evs"
proof (induction g ns bs c t rule: iterate_while.induct)
  case (1 g ns bs c t)
  show ?case
  proof (cases "DoIhaveAnUnknownMember ns t")
    case False
    then have "iterate_while g ns bs c t = (Converged, c, t)"
      by (subst iterate_while.simps) simp
    then show ?thesis by simp
  next
    case True
    obtain r p t1 where sc: "scan_nodes g ns False t = (r, p, t1)"
      by (cases "scan_nodes g ns False t") auto
    from scan_nodes_trail [OF sc] obtain evs1 where
      e1: "trail t1 = trail t @ evs1" "orderly (\<forall>n \<in> set ns. distinct (bars n)) evs1"
      by blast
    show ?thesis
    proof (cases "r = None \<and> p \<and> \<not> length bs + 5 < c + 1")
      case False
      with True sc have "snd (snd (iterate_while g ns bs c t)) = t1"
        by (subst iterate_while.simps) (auto split: option.splits)
      with e1 show ?thesis by auto
    next
      case again: True
      with \<open>DoIhaveAnUnknownMember ns t\<close> sc
      have eq: "iterate_while g ns bs c t = iterate_while g ns bs (c + 1) t1"
        by (subst iterate_while.simps) simp
      from "1.IH" [of r "(p, t1)" p t1] \<open>DoIhaveAnUnknownMember ns t\<close> sc again
      obtain evs2 where
        e2: "trail (snd (snd (iterate_while g ns bs (c + 1) t1))) = trail t1 @ evs2"
          "orderly (\<forall>n \<in> set ns. distinct (bars n)) evs2"
        by auto
      have "trail (snd (snd (iterate_while g ns bs c t))) = trail t @ (evs1 @ evs2)"
        using e1(1) e2(1) by (simp add: eq)
      moreover have "orderly (\<forall>n \<in> set ns. distinct (bars n)) (evs1 @ evs2)"
        using e1(2) e2(2) by simp
      ultimately show ?thesis by blast
    qed
  qed
qed

lemma solver_trails:
  "\<exists>evs. trail (snd (SumOfForcesInLocalX g n x t)) = trail t @ evs \<and> orderly False evs"
  "\<exists>evs. trail (snd (SumOfForcesInLocalY g n us t)) = trail t @ evs \<and> orderly False evs"
  by (auto simp add: trail_SumOfForcesInLocalX SumOfForcesInLocalY_def Let_def event_tests
      split: list.splits)

text \<open>
  Claim C1, as amended.  Of the events that a call of either solver or a run of the
  driver, whatever its outcome, adds to the trail, none sets a flag back to false; and
  every bar that is computed when the driver starts has the same flag and the same
  load when it stops.  Provided no node lists a bar twice (each bar is to appear
  exactly once per node), also no write in a run of the driver changes the load of a
  bar whose flag is already true, and no solver is called on such a bar.
\<close>

theorem one_way_resolution:
  "frozen (heap t) (heap (snd (snd (IterateUsingMethodOfJoints g ns bs t))))
   \<and> (\<exists>evs. trail (snd (snd (IterateUsingMethodOfJoints g ns bs t))) = trail t @ evs
          \<and> orderly (\<forall>n \<in> set ns. distinct (bars n)) evs)
   \<and> (\<exists>evs. trail (snd (SumOfForcesInLocalX g n x t)) = trail t @ evs \<and> orderly False evs)
   \<and> (\<exists>evs. trail (snd (SumOfForcesInLocalY g n us t)) = trail t @ evs \<and> orderly False evs)"
proof -
  obtain out c' t' where res: "iterate_while g ns bs 0 t = (out, c', t')"
    by (cases "iterate_while g ns bs 0 t") auto
  note d = driver_summaryD [OF iterate_while_summary [of g ns bs 0 t, unfolded res]]
  from d(1) iterate_while_trail [of g ns bs 0 t]
  have "frozen (heap t) (heap (snd (snd (IterateUsingMethodOfJoints g ns bs t))))
   \<and> (\<exists>evs. trail (snd (snd (IterateUsingMethodOfJoints g ns bs t))) = trail t @ evs
          \<and> orderly (\<forall>n \<in> set ns. distinct (bars n)) evs)"
    by (simp add: IterateUsingMethodOfJoints_def res)
  with solver_trails(1) [of g n x t] solver_trails(2) [of g n us t] show ?thesis
    by (intro conjI) simp_all
qed

theorem one_way_resolution_witness:
  "heap (snd (snd (IterateUsingMethodOfJoints triangle_geometry [joint_0, joint_1, joint_2]
       [0, 1, 2] half_known_truss))) 0 = \<lparr>is_computed = True, axial_load = 8\<rparr>
   \<and> orderly True (trail (snd (snd (IterateUsingMethodOfJoints triangle_geometry
       [joint_0, joint_1, joint_2] [0, 1, 2] half_known_truss))))"
proof -
  have h: "heap half_known_truss 0 = \<lparr>is_computed = True, axial_load = 8\<rparr>"
    "trail half_known_truss = []"
    by (simp_all add: half_known_truss_def)
  from one_way_resolution [where t = half_known_truss and g = triangle_geometry
      and ns = "[joint_0, joint_1, joint_2]" and bs = "[0, 1, 2]"] h
  show ?thesis by (auto simp add: frozen_def)
qed

text \<open>
  Claim C1 as stated fails: after \<^verbatim>\<open>SumOfForcesInLocalX\<close> has stored the load
  of bar 0 and set its flag, the driver calls \<^verbatim>\<open>SetAxialLoad\<close> on it, so the load
  of a bar whose flag is already true is written again.
\<close>

theorem one_way_resolution_counterexample:
  "trail (snd (snd (IterateUsingMethodOfJoints triangle_geometry [lone_joint] [0] fresh_truss)))
     = [SolverCall 0 False, LoadWrite 0 False 0 0, FlagWrite 0 False True,
        LoadWrite 0 True 0 0, FlagWrite 0 True True]
   \<and> (\<exists>e \<in> set (trail (snd (snd (IterateUsingMethodOfJoints triangle_geometry [lone_joint] [0]
        fresh_truss)))). rewrites_set_load e)"
  by (simp add: run_defs fresh_truss_def rewrites_set_load_def GetNetXForce_def
      GetNetYForce_def lone_joint_def)

section \<open>Reactions from global equilibrium\<close>

lemma found_shift:
  assumes "\<exists>p. x = Some p \<and> Suc i \<le> p \<and> p < Suc i + length ns \<and> Q (ns ! (p - Suc i))"
  shows "\<exists>p. x = Some p \<and> i \<le> p \<and> p < i + length (n # ns) \<and> Q ((n # ns) ! (p - i))"
proof -
  from assms obtain p where p: "x = Some p" "Suc i \<le> p" "p < Suc i + length ns"
      "Q (ns ! (p - Suc i))"
    by blast
  from p(2) have "p - i = Suc (p - Suc i)" by arith
  then have "(n # ns) ! (p - i) = ns ! (p - Suc i)" by simp
  with p show ?thesis by auto
qed

lemma found_here:
  assumes "Q n"
  shows "\<exists>p. Some i = Some p \<and> i \<le> p \<and> p < i + length (n # ns) \<and> Q ((n # ns) ! (p - i))"
  using assms by simp

lemma find_supports_counts:
  "find_supports ns i (pn, np, rn, nr) = (pn', np', rn', nr') \<Longrightarrow>
     np' = np + length (filter is_pin ns) \<and> nr' = nr + length (filter is_roller ns)"
proof (induction ns arbitrary: i pn np rn nr)
  case Nil
  then show ?case by simp
next
  case (Cons n ns)
  show ?case
  proof (cases "constraint n = ''pin''")
    case True
    with Cons.prems have "find_supports ns (i + 1) (Some i, np + 1, rn, nr) = (pn', np', rn', nr')"
      by simp
    from Cons.IH [OF this] True show ?thesis by (simp add: is_pin_def is_roller_def)
  next
    case False
    show ?thesis
    proof (cases "is_roller n")
      case True
      with False Cons.prems
      have "find_supports ns (i + 1) (pn, np, Some i, nr + 1) = (pn', np', rn', nr')"
        by (auto simp add: is_roller_def)
      from Cons.IH [OF this] True False show ?thesis by (simp add: is_pin_def)
    next
      case nr: False
      with False Cons.prems
      have "find_supports ns (i + 1) (pn, np, rn, nr) = (pn', np', rn', nr')"
        by (simp add: is_roller_def)
      from Cons.IH [OF this] nr False show ?thesis by (simp add: is_pin_def)
    qed
  qed
qed

lemma find_supports_pin:
  "find_supports ns i (pn, np, rn, nr) = (pn', np', rn', nr') \<Longrightarrow>
     (filter is_pin ns = [] \<and> pn' = pn)
     \<or> (\<exists>p. pn' = Some p \<and> i \<le> p \<and> p < i + length ns \<and> is_pin (ns ! (p - i)))"
proof (induction ns arbitrary: i pn np rn nr)
  case Nil
  then show ?case by simp
next
  case (Cons n ns)
  show ?case
  proof (cases "constraint n = ''pin''")
    case True
    then have pin: "is_pin n" by (simp add: is_pin_def)
    from True Cons.prems
    have "find_supports ns (i + 1) (Some i, np + 1, rn, nr) = (pn', np', rn', nr')"
      by simp
    from Cons.IH [OF this]
    have "pn' = Some i
      \<or> (\<exists>p. pn' = Some p \<and> Suc i \<le> p \<and> p < Suc i + length ns \<and> is_pin (ns ! (p - Suc i)))"
      by auto
    then show ?thesis
    proof
      assume "pn' = Some i"
      with found_here [of is_pin n i ns, OF pin] show ?thesis by simp
    next
      assume "\<exists>p. pn' = Some p \<and> Suc i \<le> p \<and> p < Suc i + length ns \<and> is_pin (ns ! (p - Suc i))"
      from found_shift [of pn' i ns is_pin n, OF this] show ?thesis by simp
    qed
  next
    case False
    then have np: "\<not> is_pin n" by (simp add: is_pin_def)
    from False Cons.prems obtain rn0 nr0 where
      "find_supports ns (i + 1) (pn, np, rn0, nr0) = (pn', np', rn', nr')"
      by (auto split: if_splits)
    from Cons.IH [OF this]
    have "(filter is_pin ns = [] \<and> pn' = pn)
      \<or> (\<exists>p. pn' = Some p \<and> Suc i \<le> p \<and> p < Suc i + length ns \<and> is_pin (ns ! (p - Suc i)))"
      by auto
    then show ?thesis
    proof
      assume "filter is_pin ns = [] \<and> pn' = pn"
      with np show ?thesis by simp
    next
      assume "\<exists>p. pn' = Some p \<and> Suc i \<le> p \<and> p < Suc i + length ns \<and> is_pin (ns ! (p - Suc i))"
      from found_shift [of pn' i ns is_pin n, OF this] show ?thesis by simp
    qed
  qed
qed

lemma find_supports_roller:
  "find_supports ns i (pn, np, rn, nr) = (pn', np', rn', nr') \<Longrightarrow>
     (filter is_roller ns = [] \<and> rn' = rn)
     \<or> (\<exists>r. rn' = Some r \<and> i \<le> r \<and> r < i + length ns \<and> is_roller (ns ! (r - i)))"
proof (induction ns arbitrary: i pn np rn nr)
  case Nil
  then show ?case by simp
next
  case (Cons n ns)
  show ?case
  proof (cases "constraint n \<noteq> ''pin'' \<and> is_roller n")
    case True
    then have ro: "is_roller n" by simp
    from True Cons.prems
    have "find_supports ns (i + 1) (pn, np, Some i, nr + 1) = (pn', np', rn', nr')"
      by (auto simp add: is_roller_def)
    from Cons.IH [OF this]
    have "rn' = Some i
      \<or> (\<exists>r. rn' = Some r \<and> Suc i \<le> r \<and> r < Suc i + length ns \<and> is_roller (ns ! (r - Suc i)))"
      by auto
    then show ?thesis
    proof
      assume "rn' = Some i"
      with found_here [of is_roller n i ns, OF ro] show ?thesis by simp
    next
      assume "\<exists>r. rn' = Some r \<and> Suc i \<le> r \<and> r < Suc i + length ns \<and> is_roller (ns ! (r - Suc i))"
      from found_shift [of rn' i ns is_roller n, OF this] show ?thesis by simp
    qed
  next
    case False
    then have nr: "\<not> is_roller n"
      by (auto simp add: is_roller_def)
    from False Cons.prems obtain pn0 np0 where
      "find_supports ns (i + 1) (pn0, np0, rn, nr) = (pn', np', rn', nr')"
      by (auto simp add: is_roller_def split: if_splits)
    from Cons.IH [OF this]
    have "(filter is_roller ns = [] \<and> rn' = rn)
      \<or> (\<exists>r. rn' = Some r \<and> Suc i \<le> r \<and> r < Suc i + length ns \<and> is_roller (ns ! (r - Suc i)))"
      by auto
    then show ?thesis
    proof
      assume "filter is_roller ns = [] \<and> rn' = rn"
      with nr show ?thesis by simp
    next
      assume "\<exists>r. rn' = Some r \<and> Suc i \<le> r \<and> r < Suc i + length ns \<and> is_roller (ns ! (r - Suc i))"
      from found_shift [of rn' i ns is_roller n, OF this] show ?thesis by simp
    qed
  qed
qed

lemma find_supports_one_each:
  assumes "length (filter is_pin ns) = 1" and "length (filter is_roller ns) = 1"
  obtains p r where "find_supports ns 0 (None, 0, None, 0) = (Some p, 1, Some r, 1)"
    and "p < length ns" and "r < length ns" and "is_pin (ns ! p)" and "is_roller (ns ! r)"
    and "p \<noteq> r"
proof -
  obtain pn' np' rn' nr' where fs: "find_supports ns 0 (None, 0, None, 0) = (pn', np', rn', nr')"
    by (cases "find_supports ns 0 (None, 0, None, 0)") auto
  from assms have ne: "filter is_pin ns \<noteq> []" "filter is_roller ns \<noteq> []" by auto
  from find_supports_pin [OF fs] ne(1)
  obtain p where p: "pn' = Some p" "p < length ns" "is_pin (ns ! p)" by auto
  from find_supports_roller [OF fs] ne(2)
  obtain r where r: "rn' = Some r" "r < length ns" "is_roller (ns ! r)" by auto
  have "p \<noteq> r" using p(3) r(3) by (auto simp add: is_pin_def is_roller_def)
  moreover have "find_supports ns 0 (None, 0, None, 0) = (Some p, 1, Some r, 1)"
    using fs find_supports_counts [OF fs] assms p(1) r(1) by simp
  ultimately show thesis using p r that by blast
qed

lemma foldl_add: "foldl (\<lambda>acc n. acc + h n) s ns = (s::real) + sum_list (map h ns)"
  by (induction ns arbitrary: s) simp_all

lemma sum_list_update_real:
  "i < length xs \<Longrightarrow>
     sum_list (map f (xs[i := y])) = sum_list (map f xs) - f (xs ! i) + (f y :: real)"
proof (induction xs arbitrary: i)
  case Nil
  then show ?case by simp
next
  case (Cons x xs)
  then show ?case by (cases i) simp_all
qed

lemma moment_shift:
  "moment_about q fx fy ns =
     moment_about p fx fy ns + (fst p - fst q) * sum_list (map fy ns)
       - (snd p - snd q) * sum_list (map fx ns)"
  by (induction ns) (simp_all add: moment_about_def algebra_simps)


lemma moment_add:
  "moment_about q (\<lambda>n. fx n + fx' n) (\<lambda>n. fy n + fy' n) ns
     = moment_about q fx fy ns + moment_about q fx' fy' ns"
  by (induction ns) (simp_all add: moment_about_def algebra_simps)

lemma sum_add: "(\<Sum>n \<leftarrow> ns. f n + g n) = sum_list (map f ns) + (sum_list (map g ns) :: real)"
  by (induction ns) simp_all

lemma moment_update:
  assumes "i < length ns" and "location y = location (ns ! i)"
  shows "moment_about q fx fy (ns[i := y])
     = moment_about q fx fy ns
       + (fst (location (ns ! i)) - fst q) * (fy y - fy (ns ! i))
       - (snd (location (ns ! i)) - snd q) * (fx y - fx (ns ! i))"
  unfolding moment_about_def
  using sum_list_update_real [OF assms(1),
      of "\<lambda>n. (fst (location n) - fst q) * fy n - (snd (location n) - snd q) * fx n" y] assms(2)
  by (simp add: algebra_simps)

lemma balance_algebra:
  fixes ax ay bx by' ex ey mp mq mr xr yr xp yp qx qy :: real
  assumes "ax + bx = - ex" and "ay + by' = - ey"
    and "(xr - xp) * ay - (yr - yp) * ax = - mp"
    and "mq = mp + (xp - qx) * ey - (yp - qy) * ex"
  shows "mq + mr + (xr - qx) * ay - (yr - qy) * ax + (xp - qx) * by' - (yp - qy) * bx = mr"
proof -
  have b: "bx = - ex - ax" "by' = - ey - ay" using assms(1,2) by simp_all
  have "mq + mr + (xr - qx) * ay - (yr - qy) * ax + (xp - qx) * by' - (yp - qy) * bx
      = mr + (mp + ((xr - xp) * ay - (yr - yp) * ax))"
    unfolding b assms(4) by (simp add: algebra_simps)
  also have "\<dots> = mr" unfolding assms(3) by simp
  finally show ?thesis .
qed

lemma GetNetForce_fun:
  "GetNetXForce = (\<lambda>n. xforce_external n + xforce_reaction n)"
  "GetNetYForce = (\<lambda>n. yforce_external n + yforce_reaction n)"
  by (rule ext, simp add: GetNetXForce_def) (rule ext, simp add: GetNetYForce_def)

lemma reactions_balance:
  assumes p: "p < length ns" and r: "r < length ns" and pr: "p \<noteq> r"
    and R': "location R' = location (ns ! r)"
      "GetNetXForce R' = GetNetXForce (ns ! r) + ax" "GetNetYForce R' = GetNetYForce (ns ! r) + ay"
    and P': "location P' = location (ns ! p)"
      "GetNetXForce P' = GetNetXForce (ns ! p) + bx" "GetNetYForce P' = GetNetYForce (ns ! p) + by"
    and fx: "ax + bx = - sum_list (map xforce_external ns)"
    and fy: "ay + by = - sum_list (map yforce_external ns)"
    and m: "(fst (location (ns ! r)) - fst (location (ns ! p))) * ay
              - (snd (location (ns ! r)) - snd (location (ns ! p))) * ax
            = - moment_about (location (ns ! p)) xforce_external yforce_external ns"
  shows "sum_list (map GetNetXForce (ns[r := R', p := P'])) = sum_list (map xforce_reaction ns)"
    and "sum_list (map GetNetYForce (ns[r := R', p := P'])) = sum_list (map yforce_reaction ns)"
    and "moment_about q GetNetXForce GetNetYForce (ns[r := R', p := P'])
           = moment_about q xforce_reaction yforce_reaction ns"
proof -
  have p1: "p < length (ns[r := R'])" using p by simp
  have np: "ns[r := R'] ! p = ns ! p" using pr by simp
  have netx: "sum_list (map GetNetXForce ns)
      = sum_list (map xforce_external ns) + sum_list (map xforce_reaction ns)"
    using sum_add [of xforce_external xforce_reaction ns] by (simp add: GetNetForce_fun)
  have nety: "sum_list (map GetNetYForce ns)
      = sum_list (map yforce_external ns) + sum_list (map yforce_reaction ns)"
    using sum_add [of yforce_external yforce_reaction ns] by (simp add: GetNetForce_fun)
  have "sum_list (map GetNetXForce (ns[r := R', p := P']))
      = sum_list (map GetNetXForce ns) + ax + bx"
    using sum_list_update_real [OF p1, of GetNetXForce P']
      sum_list_update_real [OF r, of GetNetXForce R'] np R'(2) P'(2)
    by simp
  with netx fx show "sum_list (map GetNetXForce (ns[r := R', p := P']))
      = sum_list (map xforce_reaction ns)"
    by simp
  have "sum_list (map GetNetYForce (ns[r := R', p := P']))
      = sum_list (map GetNetYForce ns) + ay + by"
    using sum_list_update_real [OF p1, of GetNetYForce P']
      sum_list_update_real [OF r, of GetNetYForce R'] np R'(3) P'(3)
    by simp
  with nety fy show "sum_list (map GetNetYForce (ns[r := R', p := P']))
      = sum_list (map yforce_reaction ns)"
    by simp
  have mnet: "moment_about q GetNetXForce GetNetYForce ns
      = moment_about q xforce_external yforce_external ns
        + moment_about q xforce_reaction yforce_reaction ns"
    using moment_add [of q xforce_external xforce_reaction yforce_external yforce_reaction ns]
    by (simp add: GetNetForce_fun)
  have P'loc: "location P' = location (ns[r := R'] ! p)" using P'(1) np by simp
  have upd: "moment_about q GetNetXForce GetNetYForce (ns[r := R', p := P'])
      = moment_about q GetNetXForce GetNetYForce ns
        + (fst (location (ns ! r)) - fst q) * ay - (snd (location (ns ! r)) - snd q) * ax
        + (fst (location (ns ! p)) - fst q) * by - (snd (location (ns ! p)) - snd q) * bx"
    using moment_update [OF p1 P'loc, of q GetNetXForce GetNetYForce]
      moment_update [OF r R'(1), of q GetNetXForce GetNetYForce] np R'(2,3) P'(2,3)
    by simp
  show "moment_about q GetNetXForce GetNetYForce (ns[r := R', p := P'])
           = moment_about q xforce_reaction yforce_reaction ns"
    unfolding upd mnet
    by (rule balance_algebra [OF fx fy m
          moment_shift [of q xforce_external yforce_external ns "location (ns ! p)"]])
qed

lemma foldl_moment:
  "foldl (\<lambda>acc n. case location n of
                     (node_x, node_y) \<Rightarrow>
                       acc + yforce_external n * (node_x - pin_x)
                         + xforce_external n * (pin_y - node_y)) s ns
     = s + moment_about (pin_x, pin_y) xforce_external yforce_external ns"
  by (induction ns arbitrary: s) (simp_all add: moment_about_def split_beta algebra_simps)

lemma added_reaction_fields [simp]:
  "location (AddReactionXForce f n) = location n"
  "location (AddReactionYForce f n) = location n"
  "constraint (AddReactionXForce f n) = constraint n"
  "constraint (AddReactionYForce f n) = constraint n"
  "xforce_external (AddReactionXForce f n) = xforce_external n"
  "xforce_external (AddReactionYForce f n) = xforce_external n"
  "yforce_external (AddReactionXForce f n) = yforce_external n"
  "yforce_external (AddReactionYForce f n) = yforce_external n"
  "GetNetXForce (AddReactionXForce f n) = GetNetXForce n + f"
  "GetNetXForce (AddReactionYForce f n) = GetNetXForce n"
  "GetNetYForce (AddReactionXForce f n) = GetNetYForce n"
  "GetNetYForce (AddReactionYForce f n) = GetNetYForce n + f"
  by (simp_all add: AddReactionXForce_def AddReactionYForce_def GetNetXForce_def GetNetYForce_def)

lemma map_update_same:
  "i < length ns \<Longrightarrow> f y = f (ns ! i) \<Longrightarrow> map f (ns[i := y]) = map f ns"
  by (simp add: map_update list_update_same_conv)

lemma pin_reactions_eq:
  assumes "p < length ns" and "p \<noteq> r"
  shows "pin_reactions ns p r rr =
     ns[p := AddReactionXForce
               (- (sum_list (map xforce_external ns)
                   + (if constraint (ns ! r) = ''roller_no_xdisp'' then rr else 0)))
               (AddReactionYForce
                 (- (sum_list (map yforce_external ns)
                     + (if constraint (ns ! r) = ''roller_no_ydisp'' then rr else 0)))
                 (ns ! p))]"
proof -
  have x: "sum_list (map xforce_external (ns[p := AddReactionYForce f (ns ! p)]))
      = sum_list (map xforce_external ns)" for f
    using assms(1) by (simp add: map_update_same)
  show ?thesis
    using assms by (simp add: pin_reactions_def Let_def foldl_add x)
qed


lemma pin_reactions_after_roller:
  assumes p: "p < length nodes" and r: "r < length nodes" and pr: "p \<noteq> r"
    and R': "xforce_external R' = xforce_external (nodes ! r)"
      "yforce_external R' = yforce_external (nodes ! r)"
      "constraint R' = constraint (nodes ! r)"
  shows "pin_reactions (nodes[r := R']) p r rr =
     nodes[r := R',
       p := AddReactionXForce
               (- (sum_list (map xforce_external nodes)
                   + (if constraint (nodes ! r) = ''roller_no_xdisp'' then rr else 0)))
               (AddReactionYForce
                 (- (sum_list (map yforce_external nodes)
                     + (if constraint (nodes ! r) = ''roller_no_ydisp'' then rr else 0)))
                 (nodes ! p))]"
proof -
  have p1: "p < length (nodes[r := R'])" using p by simp
  have e1: "sum_list (map xforce_external (nodes[r := R'])) = sum_list (map xforce_external nodes)"
    "sum_list (map yforce_external (nodes[r := R'])) = sum_list (map yforce_external nodes)"
    using r R' by (simp_all add: map_update_same)
  have c1: "constraint (nodes[r := R'] ! r) = constraint (nodes ! r)" using r R' by simp
  have n1: "nodes[r := R'] ! p = nodes ! p" using pr by simp
  show ?thesis
    unfolding pin_reactions_eq [OF p1 pr] e1 c1 n1 ..
qed

lemma ComputeReactions_found:
  assumes fs: "find_supports nodes 0 (None, 0, None, 0) = (Some p, 1, Some r, 1)"
    and p: "p < length nodes" and r: "r < length nodes" and pr: "p \<noteq> r"
    and ro: "is_roller (nodes ! r)"
    and arm: "lever_arm (nodes ! p) (nodes ! r) \<noteq> 0"
  shows "\<exists>ax ay bx by' R' P'.
      ComputeReactions nodes = Inr (nodes[r := R', p := P'])
      \<and> location R' = location (nodes ! r)
      \<and> xforce_external R' = xforce_external (nodes ! r)
      \<and> yforce_external R' = yforce_external (nodes ! r)
      \<and> GetNetXForce R' = GetNetXForce (nodes ! r) + ax
      \<and> GetNetYForce R' = GetNetYForce (nodes ! r) + ay
      \<and> location P' = location (nodes ! p)
      \<and> xforce_external P' = xforce_external (nodes ! p)
      \<and> yforce_external P' = yforce_external (nodes ! p)
      \<and> GetNetXForce P' = GetNetXForce (nodes ! p) + bx
      \<and> GetNetYForce P' = GetNetYForce (nodes ! p) + by'
      \<and> ax + bx = - sum_list (map xforce_external nodes)
      \<and> ay + by' = - sum_list (map yforce_external nodes)
      \<and> (fst (location (nodes ! r)) - fst (location (nodes ! p))) * ay
            - (snd (location (nodes ! r)) - snd (location (nodes ! p))) * ax
          = - moment_about (location (nodes ! p)) xforce_external yforce_external nodes"
proof -
  obtain pin_x pin_y where lp: "location (nodes ! p) = (pin_x, pin_y)"
    by (cases "location (nodes ! p)") auto
  obtain roller_x roller_y where lr: "location (nodes ! r) = (roller_x, roller_y)"
    by (cases "location (nodes ! r)") auto
  let ?M = "moment_about (pin_x, pin_y) xforce_external yforce_external nodes"
  let ?Ex = "sum_list (map xforce_external nodes)"
  let ?Ey = "sum_list (map yforce_external nodes)"
  show ?thesis
  proof (cases "constraint (nodes ! r) = ''roller_no_xdisp''")
    case True
    from arm True lp lr have nz: "pin_y - roller_y \<noteq> 0" by (simp add: lever_arm_def)
    let ?rr = "- ?M / (pin_y - roller_y)"
    let ?R = "AddReactionXForce ?rr (nodes ! r)"
    let ?ns1 = "nodes[r := ?R]"
    let ?P = "AddReactionXForce (- (?Ex + ?rr)) (AddReactionYForce (- (?Ey + 0)) (nodes ! p))"
    have pe: "pin_reactions ?ns1 p r ?rr = ?ns1[p := ?P]"
      unfolding pin_reactions_after_roller [OF p r pr, of ?R, OF added_reaction_fields(5,7,3)] True
      by simp
    have cr: "ComputeReactions nodes = Inr (nodes[r := ?R, p := ?P])"
      using fs True nz lp lr pe by (simp add: ComputeReactions_def Let_def foldl_moment)
    have m: "(fst (location (nodes ! r)) - fst (location (nodes ! p))) * 0
            - (snd (location (nodes ! r)) - snd (location (nodes ! p))) * ?rr
          = - moment_about (location (nodes ! p)) xforce_external yforce_external nodes"
      using nz by (simp add: lp lr field_simps)
    show ?thesis
      apply (rule exI [of _ ?rr], rule exI [of _ 0], rule exI [of _ "- (?Ex + ?rr)"],
          rule exI [of _ "- (?Ey + 0)"], rule exI [of _ ?R], rule exI [of _ ?P])
      using cr m by simp
  next
    case False
    with ro have yd: "constraint (nodes ! r) = ''roller_no_ydisp''" by (simp add: is_roller_def)
    from arm False lp lr have nz: "roller_x - pin_x \<noteq> 0" by (simp add: lever_arm_def)
    let ?rr = "- ?M / (roller_x - pin_x)"
    let ?R = "AddReactionYForce ?rr (nodes ! r)"
    let ?ns1 = "nodes[r := ?R]"
    let ?P = "AddReactionXForce (- (?Ex + 0)) (AddReactionYForce (- (?Ey + ?rr)) (nodes ! p))"
    have pe: "pin_reactions ?ns1 p r ?rr = ?ns1[p := ?P]"
      unfolding pin_reactions_after_roller [OF p r pr, of ?R, OF added_reaction_fields(6,8,4)] yd
      by simp
    have cr: "ComputeReactions nodes = Inr (nodes[r := ?R, p := ?P])"
      using fs False yd nz lp lr pe by (simp add: ComputeReactions_def Let_def foldl_moment)
    have m: "(fst (location (nodes ! r)) - fst (location (nodes ! p))) * ?rr
            - (snd (location (nodes ! r)) - snd (location (nodes ! p))) * 0
          = - moment_about (location (nodes ! p)) xforce_external yforce_external nodes"
      using nz by (simp add: lp lr field_simps)
    show ?thesis
      apply (rule exI [of _ 0], rule exI [of _ ?rr], rule exI [of _ "- (?Ex + 0)"],
          rule exI [of _ "- (?Ey + ?rr)"], rule exI [of _ ?R], rule exI [of _ ?P])
      using cr m by simp
  qed
qed


text \<open>
  Claim C9, as amended.  For a node list with exactly one pin and exactly one roller
  whose reaction has a lever arm about the pin that is not zero, \<^verbatim>\<open>ComputeReactions\<close>
  returns; locations and external forces are unchanged; and the external forces
  together with the reactions it added (the net forces after, less the reactions
  before) sum to zero in x and in y and have zero moment about every point.
\<close>

theorem ComputeReactions_equilibrium:
  assumes "length (filter is_pin nodes) = 1" and "length (filter is_roller nodes) = 1"
    and "\<forall>p \<in> set nodes. \<forall>r \<in> set nodes. is_pin p \<and> is_roller r \<longrightarrow> lever_arm p r \<noteq> 0"
  shows "\<exists>nodes'. ComputeReactions nodes = Inr nodes'
    \<and> length nodes' = length nodes
    \<and> map location nodes' = map location nodes
    \<and> map xforce_external nodes' = map xforce_external nodes
    \<and> map yforce_external nodes' = map yforce_external nodes
    \<and> sum_list (map GetNetXForce nodes') - sum_list (map xforce_reaction nodes) = 0
    \<and> sum_list (map GetNetYForce nodes') - sum_list (map yforce_reaction nodes) = 0
    \<and> (\<forall>q. moment_about q GetNetXForce GetNetYForce nodes'
             - moment_about q xforce_reaction yforce_reaction nodes = 0)"
proof -
  from assms(1,2) obtain p r where
    fs: "find_supports nodes 0 (None, 0, None, 0) = (Some p, 1, Some r, 1)"
    and p: "p < length nodes" and r: "r < length nodes"
    and ip: "is_pin (nodes ! p)" and ir: "is_roller (nodes ! r)" and pr: "p \<noteq> r"
    by (rule find_supports_one_each)
  have arm: "lever_arm (nodes ! p) (nodes ! r) \<noteq> 0"
    using assms(3) p r ip ir by simp
  from ComputeReactions_found [OF fs p r pr ir arm]
  obtain ax ay bx by' R' P' where
    cr: "ComputeReactions nodes = Inr (nodes[r := R', p := P'])"
    and R': "location R' = location (nodes ! r)"
      "GetNetXForce R' = GetNetXForce (nodes ! r) + ax"
      "GetNetYForce R' = GetNetYForce (nodes ! r) + ay"
    and Re: "xforce_external R' = xforce_external (nodes ! r)"
      "yforce_external R' = yforce_external (nodes ! r)"
    and P': "location P' = location (nodes ! p)"
      "GetNetXForce P' = GetNetXForce (nodes ! p) + bx"
      "GetNetYForce P' = GetNetYForce (nodes ! p) + by'"
    and Pe: "xforce_external P' = xforce_external (nodes ! p)"
      "yforce_external P' = yforce_external (nodes ! p)"
    and fx: "ax + bx = - sum_list (map xforce_external nodes)"
    and fy: "ay + by' = - sum_list (map yforce_external nodes)"
    and m: "(fst (location (nodes ! r)) - fst (location (nodes ! p))) * ay
            - (snd (location (nodes ! r)) - snd (location (nodes ! p))) * ax
          = - moment_about (location (nodes ! p)) xforce_external yforce_external nodes"
    by blast
  note bal = reactions_balance [OF p r pr R' P' fx fy m]
  have p1: "p < length (nodes[r := R'])" using p by simp
  have np: "nodes[r := R'] ! p = nodes ! p" using pr by simp
  have keep: "map f (nodes[r := R', p := P']) = map f nodes"
    if "f R' = f (nodes ! r)" "f P' = f (nodes ! p)" for f :: "node \<Rightarrow> 'a"
    using map_update_same [OF p1, of f P'] map_update_same [OF r, of f R'] that np by simp
  have "length (nodes[r := R', p := P']) = length nodes" by simp
  moreover have "map location (nodes[r := R', p := P']) = map location nodes"
    using R'(1) P'(1) by (rule keep)
  moreover have "map xforce_external (nodes[r := R', p := P']) = map xforce_external nodes"
    using Re(1) Pe(1) by (rule keep)
  moreover have "map yforce_external (nodes[r := R', p := P']) = map yforce_external nodes"
    using Re(2) Pe(2) by (rule keep)
  ultimately show ?thesis using cr bal by simp
qed

lemma unsupported_triangle_reactions:
  "ComputeReactions unsupported_triangle = Inr [joint_0, joint_1, joint_2]"
  by (simp add: ComputeReactions_def unsupported_triangle_def pin_reactions_def Let_def
      joint_0_def joint_1_def joint_2_def AddReactionXForce_def AddReactionYForce_def)

theorem ComputeReactions_equilibrium_witness:
  "length (filter is_pin unsupported_triangle) = 1
   \<and> length (filter is_roller unsupported_triangle) = 1
   \<and> ComputeReactions unsupported_triangle = Inr [joint_0, joint_1, joint_2]
   \<and> sum_list (map GetNetXForce [joint_0, joint_1, joint_2]) = 0
   \<and> sum_list (map GetNetYForce [joint_0, joint_1, joint_2]) = 0
   \<and> moment_about (1, 2) GetNetXForce GetNetYForce [joint_0, joint_1, joint_2] = 0"
proof -
  have f: "length (filter is_pin unsupported_triangle) = 1"
    "length (filter is_roller unsupported_triangle) = 1"
    by (simp_all add: unsupported_triangle_def is_pin_def is_roller_def
        joint_0_def joint_1_def joint_2_def)
  have a: "\<forall>p \<in> set unsupported_triangle. \<forall>r \<in> set unsupported_triangle.
      is_pin p \<and> is_roller r \<longrightarrow> lever_arm p r \<noteq> 0"
    by (simp add: unsupported_triangle_def is_pin_def is_roller_def lever_arm_def
        joint_0_def joint_1_def joint_2_def)
  have z: "sum_list (map xforce_reaction unsupported_triangle) = 0"
    "sum_list (map yforce_reaction unsupported_triangle) = 0"
    "moment_about (1, 2) xforce_reaction yforce_reaction unsupported_triangle = 0"
    by (simp_all add: unsupported_triangle_def moment_about_def)
  from ComputeReactions_equilibrium [OF f a] unsupported_triangle_reactions z
  have "sum_list (map GetNetXForce [joint_0, joint_1, joint_2]) = 0
   \<and> sum_list (map GetNetYForce [joint_0, joint_1, joint_2]) = 0
   \<and> moment_about (1, 2) GetNetXForce GetNetYForce [joint_0, joint_1, joint_2] = 0"
    by auto
  with f unsupported_triangle_reactions show ?thesis by simp
qed

text \<open>
  Claim C9 as stated fails: with one pin and one roller that holds x at the height of
  the pin, the division by the lever arm raises \<^verbatim>\<open>ZeroDivisionError\<close> and no
  reaction is added.
\<close>

theorem ComputeReactions_equilibrium_counterexample:
  "length (filter is_pin level_roller_triangle) = 1
   \<and> length (filter is_roller level_roller_triangle) = 1
   \<and> ComputeReactions level_roller_triangle = Inl ZeroDivisionError"
  by (simp add: ComputeReactions_def level_roller_triangle_def Let_def is_pin_def is_roller_def
      joint_0_def joint_1_def joint_2_def)

section \<open>Termination within the number of bars\<close>

lemma sqrt_more [simp]: "sqrt 81 = 9" "sqrt 100 = 10"
proof -
  have "sqrt (9\<^sup>2) = 9" "sqrt (10\<^sup>2) = 10" by simp_all
  then show "sqrt 81 = 9" "sqrt 100 = 10" by simp_all
qed

lemma prism_fields [simp]:
  "idx (prism_joint k) = k"
  "bars (prism_joint k) = [[0, 1, 6], [0, 2, 7], [1, 2, 8], [3, 4, 6], [3, 5, 7], [4, 5, 8]] ! k"
  "location (prism_joint k) = prism_points ! k"
  "constraint (prism_joint k)
     = (if k = 0 then ''pin'' else if k = 1 then ''roller_no_ydisp'' else ''none'')"
  by (simp_all add: prism_joint_def)

lemma prism_geometry_simps [simp]:
  "BarNodeToVector prism_geometry n b =
     (let (p, q) = prism_ends b
      in if location n = p then (fst q - fst p, snd q - snd p)
         else (fst p - fst q, snd p - snd q))"
  "CosineVectors prism_geometry u v =
     (fst u * fst v + snd u * snd v)
       / (sqrt (fst u * fst u + snd u * snd u) * sqrt (fst v * fst v + snd v * snd v))"
  "SineVectors prism_geometry u v =
     (fst u * snd v - snd u * fst v)
       / (sqrt (fst u * fst u + snd u * snd u) * sqrt (fst v * fst v + snd v * snd v))"
  by (simp_all add: prism_geometry_def plane_geometry_def)

lemma prism_determinate: "StaticallyDeterminate reaction_codes prism_nodes prism_bars = Inr True"
  by (simp add: StaticallyDeterminate_def prism_nodes_def prism_bars_def reaction_codes_def)

lemma prism_stuck:
  "IterateUsingMethodOfJoints prism_geometry prism_nodes prism_bars fresh_truss
     = (SysExit StuckError, 0, fresh_truss)"
proof -
  have "DoIhaveAnUnknownMember prism_nodes fresh_truss"
    by (simp add: prism_nodes_def UnknownBars_filter)
  moreover have "\<forall>n \<in> set prism_nodes. \<not> NodeIsViable n fresh_truss"
    by (simp add: prism_nodes_def NodeIsViable_iff UnknownBars_filter)
  ultimately show ?thesis
    unfolding IterateUsingMethodOfJoints_def by (rule iterate_while_stuck)
qed

lemma prism_stable: "kinematically_stable prism_geometry prism_nodes"
  unfolding kinematically_stable_def
proof (intro allI impI)
  fix f :: "bar_ref \<Rightarrow> real" and rx ry :: "node \<Rightarrow> real"
  assume eq: "\<forall>n \<in> set prism_nodes.
           (\<Sum>b \<leftarrow> bars n. f b * CosineVectors prism_geometry (BarNodeToVector prism_geometry n b) (1, 0)) + rx n = 0
           \<and> (\<Sum>b \<leftarrow> bars n. f b * CosineVectors prism_geometry (BarNodeToVector prism_geometry n b) (0, 1)) + ry n = 0
           \<and> (constraint n \<noteq> ''pin'' \<and> constraint n \<noteq> ''roller_no_xdisp'' \<longrightarrow> rx n = 0)
           \<and> (constraint n \<noteq> ''pin'' \<and> constraint n \<noteq> ''roller_no_ydisp'' \<longrightarrow> ry n = 0)"
  have f: "f 0 = 0 \<and> f 1 = 0 \<and> f 2 = 0 \<and> f 3 = 0 \<and> f 4 = 0 \<and> f 5 = 0 \<and> f 6 = 0 \<and> f 7 = 0 \<and> f 8 = 0"
    using eq by (simp add: prism_nodes_def prism_ends_def prism_points_def prism_bar_ends_def)
  have r: "\<forall>n \<in> set prism_nodes. rx n = 0 \<and> ry n = 0"
    using eq f by (simp add: prism_nodes_def prism_ends_def prism_points_def prism_bar_ends_def)
  have "\<forall>b \<in> incident prism_nodes. f b = 0"
    using f by (auto simp add: incident_def prism_nodes_def)
  with r show "(\<forall>b \<in> incident prism_nodes. f b = 0) \<and> (\<forall>n \<in> set prism_nodes. rx n = 0 \<and> ry n = 0)"
    by simp
qed

text \<open>
  Claim C2 as stated fails.  The prism passes the test of \<^verbatim>\<open>StaticallyDeterminate\<close>
  and is kinematically stable, yet no joint has fewer than three unknown bars, so the
  first pass finds no viable node and the driver stops with the stalled error, no bar
  resolved.
\<close>

theorem convergence_counterexample:
  "StaticallyDeterminate reaction_codes prism_nodes prism_bars = Inr True
   \<and> kinematically_stable prism_geometry prism_nodes
   \<and> IterateUsingMethodOfJoints prism_geometry prism_nodes prism_bars fresh_truss
       = (SysExit StuckError, 0, fresh_truss)"
  using prism_determinate prism_stable prism_stuck by simp

lemma UnknownBars_heap_only: "heap t = heap u \<Longrightarrow> UnknownBars n t = UnknownBars n u"
  by (simp add: UnknownBars_filter)

lemma resolve_node_error:
  assumes "resolve_node g n p t = (Some e, p1, t1)"
  shows "e = GeometryError (idx n) \<and> collinear_unknowns g n t1"
proof -
  from resolve_node_summary(3) [OF assms] have v: "NodeIsViable n t" by auto
  then show ?thesis
  proof (cases rule: viable_shapes)
    case (1 a)
    from resolve_node_one [OF 1, of g p] assms show ?thesis by auto
  next
    case (2 a b)
    show ?thesis
    proof (cases "\<bar>SineVectors g (BarNodeToVector g n a) (BarNodeToVector g n b)\<bar> < 1 / 10 ^ 9")
      case True
      from resolve_node_two_small [OF 2 True, of p] assms
      have e: "e = GeometryError (idx n)" and t1: "t1 = note_solver_call b t" by simp_all
      have "UnknownBars n t1 = [a, b]"
        using 2 UnknownBars_heap_only [of t1 t n] t1 by simp
      with True e show ?thesis by (auto simp add: collinear_unknowns_def)
    next
      case False
      from resolve_node_two_large [OF 2 False, of p] assms show ?thesis by auto
    qed
  qed
qed

lemma scan_nodes_error:
  "scan_nodes g ns p t = (Some e, p', t') \<Longrightarrow>
     \<exists>n \<in> set ns. e = GeometryError (idx n) \<and> collinear_unknowns g n t'"
proof (induction ns arbitrary: p t)
  case Nil
  then show ?case by simp
next
  case (Cons n ns)
  obtain r1 p1 t1 where rn: "resolve_node g n p t = (r1, p1, t1)"
    by (cases "resolve_node g n p t") auto
  show ?case
  proof (cases r1)
    case (Some e1)
    with rn Cons.prems have "e = e1" "t' = t1" by simp_all
    with resolve_node_error [of g n p t e1 p1 t1] rn Some show ?thesis by simp
  next
    case None
    with rn Cons.prems have "scan_nodes g ns p1 t1 = (Some e, p', t')" by simp
    from Cons.IH [OF this] show ?thesis by auto
  qed
qed

lemma iterate_while_error:
  "fst (iterate_while g ns bs c t) = SysExit e \<Longrightarrow> e \<noteq> StuckError \<Longrightarrow>
     \<exists>n \<in> set ns. e = GeometryError (idx n)
        \<and> collinear_unknowns g n (snd (snd (iterate_while g ns bs c t)))"
proof (induction g ns bs c t rule: iterate_while.induct)
  case (1 g ns bs c t)
  show ?case
  proof (cases "DoIhaveAnUnknownMember ns t")
    case False
    then have "iterate_while g ns bs c t = (Converged, c, t)"
      by (subst iterate_while.simps) simp
    with "1.prems" show ?thesis by simp
  next
    case True
    obtain r p t1 where sc: "scan_nodes g ns False t = (r, p, t1)"
      by (cases "scan_nodes g ns False t") auto
    show ?thesis
    proof (cases r)
      case (Some e1)
      with True sc have eq: "iterate_while g ns bs c t = (SysExit e1, c, t1)"
        by (subst iterate_while.simps) simp
      with "1.prems" have "e = e1" by simp
      with scan_nodes_error [of g ns False t e1 p t1] sc Some eq show ?thesis by simp
    next
      case None
      show ?thesis
      proof (cases "p \<and> \<not> length bs + 5 < c + 1")
        case False
        with True sc None
        have "fst (iterate_while g ns bs c t) = SysExit StuckError
              \<or> fst (iterate_while g ns bs c t) = TooManyIterations"
          by (subst iterate_while.simps, simp)+
        with "1.prems" show ?thesis by auto
      next
        case again: True
        with \<open>DoIhaveAnUnknownMember ns t\<close> sc None
        have eq: "iterate_while g ns bs c t = iterate_while g ns bs (c + 1) t1"
          by (subst iterate_while.simps) simp
        from "1.IH" [of r "(p, t1)" p t1] \<open>DoIhaveAnUnknownMember ns t\<close> sc None again "1.prems"
        show ?thesis by (simp add: eq)
      qed
    qed
  qed
qed

text \<open>
  Claim C2, as amended.  When the bar list contains every bar incident to a node, the
  driver stops after at most \<open>length bs\<close> completed passes and never by the bounded
  exit.  It stops converged, every incident bar computed, unless it stops with the
  stalled error, and then no node is viable and an incident bar is unresolved, or with
  the geometry error that names a node, and then that node is viable and its two
  unknown bars have a sine below \<open>1e-9\<close> in absolute value: they are collinear.
\<close>

theorem passes_within_bars:
  "incident ns \<subseteq> set bs \<longrightarrow>
     (case IterateUsingMethodOfJoints g ns bs t of
        (out, passes, t') \<Rightarrow>
          passes \<le> length bs
          \<and> out \<noteq> TooManyIterations
          \<and> (out = Converged \<longrightarrow> (\<forall>k \<in> incident ns. is_computed (heap t' k)))
          \<and> (out \<noteq> Converged \<longrightarrow>
                (out = SysExit StuckError \<and> (\<forall>n \<in> set ns. \<not> NodeIsViable n t')
                   \<and> (\<exists>k \<in> incident ns. \<not> is_computed (heap t' k)))
                \<or> (\<exists>n \<in> set ns. out = SysExit (GeometryError (idx n))
                       \<and> NodeIsViable n t'
                       \<and> (\<exists>a b. UnknownBars n t' = [a, b]
                             \<and> \<bar>SineVectors g (BarNodeToVector g n a) (BarNodeToVector g n b)\<bar>
                                 < 1 / 10 ^ 9))))"
proof
  assume sub: "incident ns \<subseteq> set bs"
  obtain out c' t' where res: "iterate_while g ns bs 0 t = (out, c', t')"
    by (cases "iterate_while g ns bs 0 t") auto
  note d = driver_summaryD [OF iterate_while_summary [of g ns bs 0 t, unfolded res]]
  have "unresolved ns (heap t) \<subseteq> set bs"
    using sub by (auto simp add: unresolved_def)
  then have "card (unresolved ns (heap t)) \<le> card (set bs)"
    by (simp add: card_mono)
  also have "\<dots> \<le> length bs" by (rule card_length)
  finally have "0 + card (unresolved ns (heap t)) \<le> length bs" by simp
  with d(8) have b: "out \<noteq> TooManyIterations" "c' + card (unresolved ns (heap t')) \<le> length bs"
    by blast+
  then have 1: "c' \<le> length bs" by simp
  have 2: "out = Converged \<longrightarrow> (\<forall>k \<in> incident ns. is_computed (heap t' k))"
    using d(4) by (auto simp add: unresolved_def)
  have 3: "out \<noteq> Converged \<longrightarrow>
                (out = SysExit StuckError \<and> (\<forall>n \<in> set ns. \<not> NodeIsViable n t')
                   \<and> (\<exists>k \<in> incident ns. \<not> is_computed (heap t' k)))
                \<or> (\<exists>n \<in> set ns. out = SysExit (GeometryError (idx n))
                       \<and> NodeIsViable n t'
                       \<and> (\<exists>a b. UnknownBars n t' = [a, b]
                             \<and> \<bar>SineVectors g (BarNodeToVector g n a) (BarNodeToVector g n b)\<bar>
                                 < 1 / 10 ^ 9))"
  proof
    assume nc: "out \<noteq> Converged"
    with b(1) obtain e where e: "out = SysExit e" by (cases out) auto
    show "(out = SysExit StuckError \<and> (\<forall>n \<in> set ns. \<not> NodeIsViable n t')
                   \<and> (\<exists>k \<in> incident ns. \<not> is_computed (heap t' k)))
                \<or> (\<exists>n \<in> set ns. out = SysExit (GeometryError (idx n))
                       \<and> NodeIsViable n t'
                       \<and> (\<exists>a b. UnknownBars n t' = [a, b]
                             \<and> \<bar>SineVectors g (BarNodeToVector g n a) (BarNodeToVector g n b)\<bar>
                                 < 1 / 10 ^ 9))"
    proof (cases "e = StuckError")
      case True
      with e d(5) have "unresolved ns (heap t') \<noteq> {}" "\<forall>n \<in> set ns. \<not> NodeIsViable n t'"
        by simp_all
      then show ?thesis using True e by (auto simp add: unresolved_def)
    next
      case False
      from iterate_while_error [of g ns bs 0 t e] e False res
      obtain n where n: "n \<in> set ns" "e = GeometryError (idx n)" "collinear_unknowns g n t'"
        by auto
      from n(3) obtain a b where ab: "UnknownBars n t' = [a, b]"
          "\<bar>SineVectors g (BarNodeToVector g n a) (BarNodeToVector g n b)\<bar> < 1 / 10 ^ 9"
        by (auto simp add: collinear_unknowns_def split: list.splits)
      from ab(1) have "NodeIsViable n t'" by (simp add: NodeIsViable_iff)
      with n e ab show ?thesis by blast
    qed
  qed
  from 1 b(1) 2 3 show "case IterateUsingMethodOfJoints g ns bs t of
        (out, passes, t') \<Rightarrow>
          passes \<le> length bs
          \<and> out \<noteq> TooManyIterations
          \<and> (out = Converged \<longrightarrow> (\<forall>k \<in> incident ns. is_computed (heap t' k)))
          \<and> (out \<noteq> Converged \<longrightarrow>
                (out = SysExit StuckError \<and> (\<forall>n \<in> set ns. \<not> NodeIsViable n t')
                   \<and> (\<exists>k \<in> incident ns. \<not> is_computed (heap t' k)))
                \<or> (\<exists>n \<in> set ns. out = SysExit (GeometryError (idx n))
                       \<and> NodeIsViable n t'
                       \<and> (\<exists>a b. UnknownBars n t' = [a, b]
                             \<and> \<bar>SineVectors g (BarNodeToVector g n a) (BarNodeToVector g n b)\<bar>
                                 < 1 / 10 ^ 9)))"
    by (simp add: IterateUsingMethodOfJoints_def res)
qed


lemma triangle_run:
  "\<exists>t'. IterateUsingMethodOfJoints triangle_geometry [joint_0, joint_1, joint_2] [0, 1, 2]
           fresh_truss = (Converged, 1, t')
     \<and> heap t' 0 = \<lparr>is_computed = True, axial_load = 8\<rparr>
     \<and> heap t' 1 = \<lparr>is_computed = True, axial_load = 6\<rparr>
     \<and> heap t' 2 = \<lparr>is_computed = True, axial_load = - 10\<rparr>"
  by (simp add: run_defs fresh_truss_def)

theorem passes_within_bars_witness:
  "incident [joint_0, joint_1, joint_2] \<subseteq> set [0, 1, 2]
   \<and> fst (IterateUsingMethodOfJoints triangle_geometry [joint_0, joint_1, joint_2] [0, 1, 2]
        fresh_truss) = Converged
   \<and> fst (snd (IterateUsingMethodOfJoints triangle_geometry [joint_0, joint_1, joint_2] [0, 1, 2]
        fresh_truss)) \<le> length [0 :: nat, 1, 2]
   \<and> is_computed (heap (snd (snd (IterateUsingMethodOfJoints triangle_geometry
        [joint_0, joint_1, joint_2] [0, 1, 2] fresh_truss))) 2)
   \<and> incident [lone_joint] \<subseteq> set [0]
   \<and> fst (IterateUsingMethodOfJoints triangle_geometry [lone_joint] [0] fresh_truss) = Converged
   \<and> is_computed (heap (snd (snd (IterateUsingMethodOfJoints triangle_geometry [lone_joint] [0]
        fresh_truss))) 0)"
proof -
  have i: "incident [joint_0, joint_1, joint_2] \<subseteq> set [0, 1, 2]"
    by (auto simp add: incident_def)
  have m: "2 \<in> incident [joint_0, joint_1, joint_2]" by (simp add: incident_def)
  from triangle_run obtain t' where
    run: "IterateUsingMethodOfJoints triangle_geometry [joint_0, joint_1, joint_2] [0, 1, 2]
           fresh_truss = (Converged, 1, t')"
    by blast
  from passes_within_bars [of "[joint_0, joint_1, joint_2]" "[0, 1, 2]" triangle_geometry
      fresh_truss] i m run
  have tri: "1 \<le> length [0 :: nat, 1, 2] \<and> is_computed (heap t' 2)"
    by (simp del: One_nat_def)
  obtain out c t2 where
    lr: "IterateUsingMethodOfJoints triangle_geometry [lone_joint] [0] fresh_truss = (out, c, t2)"
    by (cases "IterateUsingMethodOfJoints triangle_geometry [lone_joint] [0] fresh_truss") auto
  have li: "incident [lone_joint] \<subseteq> set [0]" by (simp add: incident_def)
  from passes_within_bars [of "[lone_joint]" "[0]" triangle_geometry fresh_truss] li lr
  have f: "out = Converged \<longrightarrow> is_computed (heap t2 0)"
    "out \<noteq> Converged \<longrightarrow>
       (\<not> NodeIsViable lone_joint t2 \<and> \<not> is_computed (heap t2 0))
       \<or> (\<exists>a b. UnknownBars lone_joint t2 = [a, b])"
    by (auto simp add: incident_def)
  have conv: "out = Converged"
  proof (rule ccontr)
    assume "out \<noteq> Converged"
    with f(2) consider
      (stuck) "\<not> NodeIsViable lone_joint t2" "\<not> is_computed (heap t2 0)"
      | (geo) a b where "UnknownBars lone_joint t2 = [a, b]"
      by blast
    then show False
    proof cases
      case stuck
      then show False by (simp add: NodeIsViable_iff UnknownBars_filter)
    next
      case geo
      then show False by (simp add: UnknownBars_filter split: if_splits)
    qed
  qed
  with f(1) have "is_computed (heap t2 0)" by simp
  with conv lr li i run tri show ?thesis by simp
qed

end
